theory Spec2Isabelle
  imports Complex_Main
begin

section \<open>Team Coordinator of TarkovTracker (functions/src/index.ts)\<close>

text \<open>
  The four callable operations \<open>_createTeamLogic\<close>, \<open>_joinTeamLogic\<close>,
  \<open>_leaveTeamLogic\<close> and \<open>_kickTeamMemberLogic\<close> each run one Firestore transaction
  over two collections: \<open>system\<close> (one membership document per user id) and \<open>team\<close>
  (one roster document per team id). The embedding keeps the code's structure: a
  transaction callback reads a snapshot of the store and either throws or returns the
  writes it buffered; \<open>runTransaction\<close> commits the writes only when the callback
  returned. Document ids are strings. Timestamps are integers counting milliseconds, and
  two \<open>Timestamp\<close> objects compare as their times do. User ids come from the verified
  identity and are read as document ids of the \<open>system\<close> collection.
\<close>

subsection \<open>Documents and the store\<close>

type_synonym timestamp = int

text \<open>
  A JavaScript \<open>number\<close> that is finite: every finite double is a rational, so what holds
  for every rational holds for every finite number a request or a document can carry.
\<close>

type_synonym number = rat

text \<open>A field typed \<open>string | null\<close> that may also be missing from the document.\<close>

datatype 'a nullable = Undefined | Null | Value 'a

text \<open>\<open>interface SystemDocData\<close>\<close>

record system_doc =
  team :: "string nullable"
  teamMax :: "number option"
  lastLeftTeam :: "timestamp option"

text \<open>\<open>interface TeamDocData\<close>: every field is optional.\<close>

record team_doc =
  owner :: "string option"
  password :: "string option"
  maximumMembers :: "number option"
  members :: "string list option"
  createdAt :: "timestamp option"

record store =
  system_coll :: "string \<Rightarrow> system_doc option"
  team_coll :: "string \<Rightarrow> team_doc option"

definition empty_system_doc :: system_doc where
  "empty_system_doc = \<lparr>team = Undefined, teamMax = None, lastLeftTeam = None\<rparr>"

definition empty_team_doc :: team_doc where
  "empty_team_doc =
     \<lparr>owner = None, password = None, maximumMembers = None, members = None, createdAt = None\<rparr>"

definition empty_store :: store where
  "empty_store = \<lparr>system_coll = (\<lambda>_. None), team_coll = (\<lambda>_. None)\<rparr>"

subsection \<open>Errors and results\<close>

datatype https_error =
  Unauthenticated | InvalidArgument | FailedPrecondition | NotFound
  | PermissionDenied | ResourceExhausted | Internal

text \<open>What a \<open>throw\<close> carries: an \<open>HttpsError\<close> with its code, or any other exception.\<close>

datatype exn = HttpsError https_error | OtherError

datatype result =
  Left                    \<comment> \<open>\<open>{ left: true }\<close>\<close>
  | Joined                \<comment> \<open>\<open>{ joined: true }\<close>\<close>
  | Created string string \<comment> \<open>\<open>{ team, password }\<close>\<close>
  | Kicked                \<comment> \<open>\<open>{ kicked: true }\<close>\<close>

text \<open>Outcome of \<open>await gen.generate()\<close>: it throws, or returns a string or nothing.\<close>

datatype gen_outcome = Throws | Returns "string option"

definition validateAuth :: "string option \<Rightarrow> https_error + string" where
  "validateAuth auth = (case auth of None \<Rightarrow> Inl Unauthenticated | Some uid \<Rightarrow> Inr uid)"

definition handleTeamError :: "exn \<Rightarrow> https_error" where
  "handleTeamError e = (case e of HttpsError h \<Rightarrow> h | OtherError \<Rightarrow> Internal)"

subsection \<open>Secure Token Generator\<close>

definition generateSecurePassword :: "gen_outcome \<Rightarrow> string" where
  "generateSecurePassword g =
     (case g of
        Throws \<Rightarrow> ''ERROR_PASS_456''
      | Returns None \<Rightarrow> ''DEBUG_PASS_123''
      | Returns (Some generated) \<Rightarrow>
          if generated \<noteq> [] \<and> length generated \<ge> 4 then generated
          else ''DEBUG_PASS_123'')"

subsection \<open>Buffered writes and the transaction\<close>

datatype field_value = ArrayUnion string | ArrayRemove string

datatype tx_write =
  SetTeamNew string string string number "string list"
    \<comment> \<open>\<open>set(teamRef, {owner, password, maximumMembers, members, createdAt: serverTimestamp()})\<close>\<close>
  | MergeMembers string field_value
    \<comment> \<open>\<open>set(teamRef, {members: FieldValue...}, {merge: true})\<close>\<close>
  | MergeSystemTeam string string
    \<comment> \<open>\<open>set(systemRef, {team: id}, {merge: true})\<close>\<close>
  | MergeSystemLeft string
    \<comment> \<open>\<open>set(systemRef, {team: null, lastLeftTeam: serverTimestamp()}, {merge: true})\<close>\<close>
  | DeleteTeamDoc string
    \<comment> \<open>\<open>delete(teamRef)\<close>\<close>

text \<open>
  \<open>arrayUnion\<close> appends the element unless the array has it; \<open>arrayRemove\<close> removes
  every occurrence; on a missing field they start from the empty array.
\<close>

fun apply_field_value :: "field_value \<Rightarrow> string list option \<Rightarrow> string list" where
  "apply_field_value (ArrayUnion u) None = [u]"
| "apply_field_value (ArrayUnion u) (Some xs) = (if u \<in> set xs then xs else xs @ [u])"
| "apply_field_value (ArrayRemove u) None = []"
| "apply_field_value (ArrayRemove u) (Some xs) = removeAll u xs"

definition team_or_empty :: "store \<Rightarrow> string \<Rightarrow> team_doc" where
  "team_or_empty s tid = (case team_coll s tid of None \<Rightarrow> empty_team_doc | Some d \<Rightarrow> d)"

definition system_or_empty :: "store \<Rightarrow> string \<Rightarrow> system_doc" where
  "system_or_empty s uid = (case system_coll s uid of None \<Rightarrow> empty_system_doc | Some d \<Rightarrow> d)"

text \<open>One write at commit; \<open>ts\<close> is the server's time, which replaces \<open>serverTimestamp()\<close>.\<close>

fun apply_write :: "timestamp \<Rightarrow> store \<Rightarrow> tx_write \<Rightarrow> store" where
  "apply_write ts s (SetTeamNew tid own p m ms) =
     s\<lparr>team_coll := (team_coll s)(tid \<mapsto>
         \<lparr>owner = Some own, password = Some p, maximumMembers = Some m,
          members = Some ms, createdAt = Some ts\<rparr>)\<rparr>"
| "apply_write ts s (MergeMembers tid fv) =
     s\<lparr>team_coll := (team_coll s)(tid \<mapsto>
         (team_or_empty s tid)\<lparr>members := Some (apply_field_value fv (members (team_or_empty s tid)))\<rparr>)\<rparr>"
| "apply_write ts s (MergeSystemTeam uid tid) =
     s\<lparr>system_coll := (system_coll s)(uid \<mapsto> (system_or_empty s uid)\<lparr>team := Value tid\<rparr>)\<rparr>"
| "apply_write ts s (MergeSystemLeft uid) =
     s\<lparr>system_coll := (system_coll s)(uid \<mapsto>
         (system_or_empty s uid)\<lparr>team := Null, lastLeftTeam := Some ts\<rparr>)\<rparr>"
| "apply_write ts s (DeleteTeamDoc tid) = s\<lparr>team_coll := (team_coll s)(tid := None)\<rparr>"

text \<open>
  \<open>db.runTransaction\<close>: the callback sees the snapshot; when it throws nothing is
  committed, otherwise its writes are applied in the order they were issued.
\<close>

definition runTransaction ::
  "timestamp \<Rightarrow> (store \<Rightarrow> exn + tx_write list \<times> 'a) \<Rightarrow> store \<Rightarrow> (exn + 'a) \<times> store" where
  "runTransaction ts f s =
     (case f s of
        Inl e \<Rightarrow> (Inl e, s)
      | Inr (ws, r) \<Rightarrow> (Inr r, foldl (apply_write ts) s ws))"

subsection \<open>Reading the snapshot\<close>

text \<open>\<open>systemData?.team\<close> as a condition: a non-empty string is the only truthy value.\<close>

definition current_team :: "system_doc option \<Rightarrow> string option" where
  "current_team systemData =
     (case systemData of
        None \<Rightarrow> None
      | Some d \<Rightarrow> (case team d of Value t \<Rightarrow> if t = [] then None else Some t | _ \<Rightarrow> None))"

text \<open>\<open>teamData?.members\<close> read as an array, the missing field being no member.\<close>

definition roster :: "team_doc \<Rightarrow> string list" where
  "roster td = (case members td of None \<Rightarrow> [] | Some ms \<Rightarrow> ms)"

text \<open>\<open>teamData?.maximumMembers ?? 10\<close>\<close>

definition capacity :: "team_doc \<Rightarrow> number" where
  "capacity td = (case maximumMembers td of None \<Rightarrow> 10 | Some m \<Rightarrow> m)"

text \<open>A request string as a condition: missing and empty are falsy.\<close>

definition truthy :: "string option \<Rightarrow> bool" where
  "truthy x = (case x of None \<Rightarrow> False | Some v \<Rightarrow> v \<noteq> [])"

subsection \<open>leaveTeam\<close>

definition leaveTeam_tx :: "string \<Rightarrow> store \<Rightarrow> exn + tx_write list \<times> unit" where
  "leaveTeam_tx userUid s =
     (case current_team (system_coll s userUid) of
        None \<Rightarrow> Inl (HttpsError FailedPrecondition)
      | Some t \<Rightarrow>
          (case team_coll s t of
             None \<Rightarrow> Inr ([MergeMembers t (ArrayRemove userUid), MergeSystemLeft userUid], ())
           | Some teamData \<Rightarrow>
               if owner teamData = Some userUid
               then Inr (map MergeSystemLeft (roster teamData) @ [DeleteTeamDoc t], ())
               else Inr ([MergeMembers t (ArrayRemove userUid), MergeSystemLeft userUid], ())))"

definition leaveTeam ::
  "timestamp \<Rightarrow> string option \<Rightarrow> store \<Rightarrow> (https_error + result) \<times> store" where
  "leaveTeam ts auth s =
     (case validateAuth auth of
        Inl e \<Rightarrow> (Inl e, s)
      | Inr userUid \<Rightarrow>
          (case runTransaction ts (leaveTeam_tx userUid) s of
             (Inl e, s') \<Rightarrow> (Inl (handleTeamError e), s')
           | (Inr _, s') \<Rightarrow> (Inr Left, s')))"

subsection \<open>joinTeam\<close>

text \<open>
  \<open>db.collection('team').doc(data.id)\<close> takes the caller's string as a path below the
  collection. It throws when the string is empty, when it contains \<open>//\<close>, and when the
  path does not end at a document: the segments between the slashes, empty ones dropped,
  must be odd in number. The exception is not an \<open>HttpsError\<close>. A path that is accepted
  is looked up as it is written; a leading or trailing slash, which the path drops, is
  kept here, and what is proved of an accepted id is proved of ids without a slash.
\<close>

fun split_slash :: "string \<Rightarrow> string list" where
  "split_slash [] = [[]]"
| "split_slash (c # cs) =
     (if c = CHR ''/'' then [] # split_slash cs
      else (case split_slash cs of [] \<Rightarrow> [[c]] | seg # segs \<Rightarrow> (c # seg) # segs))"

definition path_segments :: "string \<Rightarrow> string list" where
  "path_segments documentPath = filter (\<lambda>segment. segment \<noteq> []) (split_slash documentPath)"

fun double_slash :: "string \<Rightarrow> bool" where
  "double_slash (a # b # cs) = ((a = CHR ''/'' \<and> b = CHR ''/'') \<or> double_slash (b # cs))"
| "double_slash _ = False"

definition doc_throws :: "string \<Rightarrow> bool" where
  "doc_throws documentPath =
     (documentPath = [] \<or> double_slash documentPath
      \<or> even (length (path_segments documentPath)))"

definition joinTeam_tx ::
  "string \<Rightarrow> string option \<Rightarrow> string option \<Rightarrow> store \<Rightarrow> exn + tx_write list \<times> unit" where
  "joinTeam_tx userUid data_id data_password s =
     (if current_team (system_coll s userUid) \<noteq> None then Inl (HttpsError FailedPrecondition)
      else if \<not> truthy data_id \<or> \<not> truthy data_password then Inl (HttpsError InvalidArgument)
      else
        (case data_id of
           None \<Rightarrow> Inl (HttpsError InvalidArgument)
         | Some tid \<Rightarrow>
             if doc_throws tid then Inl OtherError
             else
             (case team_coll s tid of
                None \<Rightarrow> Inl (HttpsError NotFound)
              | Some teamData \<Rightarrow>
                  if password teamData \<noteq> data_password then Inl (HttpsError Unauthenticated)
                  else if of_nat (length (roster teamData)) \<ge> capacity teamData
                  then Inl (HttpsError ResourceExhausted)
                  else Inr ([MergeMembers tid (ArrayUnion userUid),
                             MergeSystemTeam userUid tid], ()))))"

definition joinTeam ::
  "timestamp \<Rightarrow> string option \<Rightarrow> string option \<Rightarrow> string option \<Rightarrow> store
     \<Rightarrow> (https_error + result) \<times> store" where
  "joinTeam ts auth data_id data_password s =
     (case validateAuth auth of
        Inl e \<Rightarrow> (Inl e, s)
      | Inr userUid \<Rightarrow>
          (case runTransaction ts (joinTeam_tx userUid data_id data_password) s of
             (Inl e, s') \<Rightarrow> (Inl (handleTeamError e), s')
           | (Inr _, s') \<Rightarrow> (Inr Joined, s')))"

subsection \<open>createTeam\<close>

text \<open>
  \<open>now\<close> is \<open>Timestamp.now()\<close>, \<open>idGen\<close> the outcome of generating the team id and
  \<open>passGen\<close> that of the generator inside \<open>generateSecurePassword\<close>. A team id that is
  missing or empty cannot name a document: \<open>doc(teamId)\<close> throws, as the generator
  throwing does, and \<open>handleTeamError\<close> reports \<open>internal\<close>. The id generator's alphabet
  has no \<open>/\<close>, so the other paths that \<open>doc\<close> refuses do not arise for a generated id.
\<close>

definition createTeam_tx ::
  "string \<Rightarrow> string option \<Rightarrow> number option \<Rightarrow> timestamp \<Rightarrow> gen_outcome \<Rightarrow> gen_outcome
     \<Rightarrow> store \<Rightarrow> exn + tx_write list \<times> (string \<times> string)" where
  "createTeam_tx userUid data_password data_maximumMembers now idGen passGen s =
     (if current_team (system_coll s userUid) \<noteq> None then Inl (HttpsError FailedPrecondition)
      else if (case system_coll s userUid of
                 None \<Rightarrow> False
               | Some systemData \<Rightarrow>
                   (case lastLeftTeam systemData of
                      None \<Rightarrow> False
                    | Some left \<Rightarrow> left > now - 5 * 60 * 1000))
      then Inl (HttpsError FailedPrecondition)
      else
        (case idGen of
           Throws \<Rightarrow> Inl OtherError
         | Returns generatedId \<Rightarrow>
             (let teamPassword =
                    (case data_password of
                       None \<Rightarrow> generateSecurePassword passGen
                     | Some p \<Rightarrow> if p \<noteq> [] then p else generateSecurePassword passGen)
              in case generatedId of
                   None \<Rightarrow> Inl OtherError
                 | Some teamId \<Rightarrow>
                     if teamId = [] then Inl OtherError
                     else Inr ([SetTeamNew teamId userUid teamPassword
                                  (case data_maximumMembers of
                                     None \<Rightarrow> 10
                                   | Some m \<Rightarrow> if m \<noteq> 0 then m else 10)
                                  [userUid],
                                MergeSystemTeam userUid teamId],
                               (teamId, teamPassword)))))"

definition createTeam ::
  "timestamp \<Rightarrow> string option \<Rightarrow> string option \<Rightarrow> number option \<Rightarrow> timestamp
     \<Rightarrow> gen_outcome \<Rightarrow> gen_outcome \<Rightarrow> store \<Rightarrow> (https_error + result) \<times> store" where
  "createTeam ts auth data_password data_maximumMembers now idGen passGen s =
     (case validateAuth auth of
        Inl e \<Rightarrow> (Inl e, s)
      | Inr userUid \<Rightarrow>
          (case runTransaction ts
                  (createTeam_tx userUid data_password data_maximumMembers now idGen passGen) s of
             (Inl e, s') \<Rightarrow> (Inl (handleTeamError e), s')
           | (Inr (createdTeam, finalTeamPassword), s') \<Rightarrow>
               (Inr (Created createdTeam finalTeamPassword), s')))"

subsection \<open>kickTeamMember\<close>

definition kickTeamMember_tx :: "string \<Rightarrow> string \<Rightarrow> store \<Rightarrow> exn + tx_write list \<times> unit" where
  "kickTeamMember_tx userUid kicked s =
     (case current_team (system_coll s userUid) of
        None \<Rightarrow> Inl (HttpsError FailedPrecondition)
      | Some teamId \<Rightarrow>
          (case team_coll s teamId of
             None \<Rightarrow> Inl (HttpsError PermissionDenied)
           | Some teamData \<Rightarrow>
               if owner teamData \<noteq> Some userUid then Inl (HttpsError PermissionDenied)
               else if kicked \<notin> set (roster teamData) then Inl (HttpsError NotFound)
               else Inr ([MergeMembers teamId (ArrayRemove kicked), MergeSystemLeft kicked], ())))"

definition kickTeamMember ::
  "timestamp \<Rightarrow> string option \<Rightarrow> string option \<Rightarrow> store \<Rightarrow> (https_error + result) \<times> store" where
  "kickTeamMember ts auth data_kicked s =
     (case validateAuth auth of
        Inl e \<Rightarrow> (Inl e, s)
      | Inr userUid \<Rightarrow>
          (case data_kicked of
             None \<Rightarrow> (Inl InvalidArgument, s)
           | Some kicked \<Rightarrow>
               if kicked = [] then (Inl InvalidArgument, s)
               else if kicked = userUid then (Inl InvalidArgument, s)
               else
                 (case runTransaction ts (kickTeamMember_tx userUid kicked) s of
                    (Inl e, s') \<Rightarrow> (Inl (handleTeamError e), s')
                  | (Inr _, s') \<Rightarrow> (Inr Kicked, s'))))"

subsection \<open>The Coordinator's operations as one step function\<close>

datatype operation =
  CreateTeam "string option" "string option" "number option" timestamp gen_outcome gen_outcome
  | JoinTeam "string option" "string option" "string option"
  | LeaveTeam "string option"
  | KickTeamMember "string option" "string option"

fun coordinator :: "timestamp \<Rightarrow> operation \<Rightarrow> store \<Rightarrow> (https_error + result) \<times> store" where
  "coordinator ts (CreateTeam auth pw mx now idGen passGen) s =
     createTeam ts auth pw mx now idGen passGen s"
| "coordinator ts (JoinTeam auth tid pw) s = joinTeam ts auth tid pw s"
| "coordinator ts (LeaveTeam auth) s = leaveTeam ts auth s"
| "coordinator ts (KickTeamMember auth kicked) s = kickTeamMember ts auth kicked s"

subsection \<open>Predicates used to state the properties\<close>

text \<open>The cooldown test of \<open>createTeam\<close>: a \<open>lastLeftTeam\<close> later than five minutes ago.\<close>

definition cooldown_active :: "store \<Rightarrow> string \<Rightarrow> timestamp \<Rightarrow> bool" where
  "cooldown_active s uid now =
     (case system_coll s uid of
        None \<Rightarrow> False
      | Some d \<Rightarrow> (case lastLeftTeam d of None \<Rightarrow> False | Some l \<Rightarrow> l > now - 300000))"

text \<open>The password \<open>createTeam\<close> ends up with: \<open>data.password || generateSecurePassword()\<close>.\<close>

definition final_password :: "string option \<Rightarrow> gen_outcome \<Rightarrow> string" where
  "final_password pw passGen = (if truthy pw then the pw else generateSecurePassword passGen)"



text \<open>The size bound for one team: the roster is no longer than the capacity.\<close>

definition team_ok :: "store \<Rightarrow> string \<Rightarrow> bool" where
  "team_ok s t =
     (case team_coll s t of None \<Rightarrow> True | Some td \<Rightarrow> of_nat (length (roster td)) \<le> capacity td)"

definition capacity_inv :: "store \<Rightarrow> bool" where
  "capacity_inv s = (\<forall>t. team_ok s t)"




text \<open>The \<open>maximumMembers\<close> argument of a \<open>createTeam\<close> request.\<close>

fun requested_maximum :: "operation \<Rightarrow> number option" where
  "requested_maximum (CreateTeam auth pw mx now idGen passGen) = mx"
| "requested_maximum _ = None"

text \<open>A whole number, and a store in which every team's capacity is one.\<close>

definition is_whole :: "number \<Rightarrow> bool" where
  "is_whole m = (of_int \<lfloor>m\<rfloor> = m)"

definition whole_capacities :: "store \<Rightarrow> bool" where
  "whole_capacities s =
     (\<forall>t. case team_coll s t of None \<Rightarrow> True | Some td \<Rightarrow> is_whole (capacity td))"

definition sane_maximum :: "operation \<Rightarrow> bool" where
  "sane_maximum op =
     (case requested_maximum op of None \<Rightarrow> True | Some m \<Rightarrow> 0 \<le> m \<and> is_whole m)"

text \<open>
  A plain document id, as Firestore admits them: not empty, at most 1500 bytes, without
  \<open>/\<close>, not \<open>.\<close> or \<open>..\<close>, and not of the form \<open>__.*__\<close>.
\<close>

definition reserved_id :: "string \<Rightarrow> bool" where
  "reserved_id documentId =
     (documentId = ''.'' \<or> documentId = ''..''
      \<or> (4 \<le> length documentId \<and> take 2 documentId = ''__''
           \<and> take 2 (rev documentId) = ''__''))"

definition plain_id :: "string \<Rightarrow> bool" where
  "plain_id documentId =
     (documentId \<noteq> [] \<and> CHR ''/'' \<notin> set documentId \<and> \<not> reserved_id documentId
      \<and> length documentId \<le> 1500)"

text \<open>
  A store for examples: team \<open>T1\<close> of capacity 2, owned by olga, with member max; zed left
  a team at time 1000 and is in none.
\<close>

definition squad_store :: store where
  "squad_store =
     \<lparr>system_coll =
        [''olga'' \<mapsto> \<lparr>team = Value ''T1'', teamMax = None, lastLeftTeam = None\<rparr>,
         ''max'' \<mapsto> \<lparr>team = Value ''T1'', teamMax = None, lastLeftTeam = None\<rparr>,
         ''zed'' \<mapsto> \<lparr>team = Null, teamMax = None, lastLeftTeam = Some 1000\<rparr>],
      team_coll =
        [''T1'' \<mapsto> \<lparr>owner = Some ''olga'', password = Some ''secret'', maximumMembers = Some 2,
                   members = Some [''olga'', ''max''], createdAt = Some 0\<rparr>]\<rparr>"

text \<open>zed asks to join the full team \<open>T1\<close> with the right password.\<close>

definition squad_join_full :: operation where
  "squad_join_full = JoinTeam (Some ''zed'') (Some ''T1'') (Some ''secret'')"

text \<open>zed, past the cooldown, creates a team for three.\<close>

definition zed_creates :: operation where
  "zed_creates = CreateTeam (Some ''zed'') None (Some 3) 400000 (Returns (Some ''T5'')) Throws"

text \<open>A store whose team \<open>T1\<close> has the capacity 5/2 and two members.\<close>

definition half_store :: store where
  "half_store =
     \<lparr>system_coll =
        [''olga'' \<mapsto> \<lparr>team = Value ''T1'', teamMax = None, lastLeftTeam = None\<rparr>,
         ''max'' \<mapsto> \<lparr>team = Value ''T1'', teamMax = None, lastLeftTeam = None\<rparr>],
      team_coll =
        [''T1'' \<mapsto> \<lparr>owner = Some ''olga'', password = Some ''secret'',
                   maximumMembers = Some (5 / 2), members = Some [''olga'', ''max''],
                   createdAt = Some 0\<rparr>]\<rparr>"


text \<open>A store where team \<open>T1\<close> has room: olga alone, no \<open>maximumMembers\<close> field.\<close>

definition open_store :: store where
  "open_store =
     \<lparr>system_coll =
        [''olga'' \<mapsto> \<lparr>team = Value ''T1'', teamMax = None, lastLeftTeam = None\<rparr>,
         ''zed'' \<mapsto> \<lparr>team = Null, teamMax = None, lastLeftTeam = Some 1000\<rparr>],
      team_coll =
        [''T1'' \<mapsto> \<lparr>owner = Some ''olga'', password = Some ''secret'', maximumMembers = None,
                   members = Some [''olga''], createdAt = Some 0\<rparr>]\<rparr>"

text \<open>The team documents of the two example stores.\<close>

definition squad_team :: team_doc where
  "squad_team = \<lparr>owner = Some ''olga'', password = Some ''secret'', maximumMembers = Some 2,
                 members = Some [''olga'', ''max''], createdAt = Some 0\<rparr>"

definition open_team :: team_doc where
  "open_team = \<lparr>owner = Some ''olga'', password = Some ''secret'', maximumMembers = None,
                 members = Some [''olga''], createdAt = Some 0\<rparr>"

section \<open>Properties\<close>

subsection \<open>The transaction and the four entry points\<close>

lemma runTransaction_Inl: "f s = Inl e \<Longrightarrow> runTransaction ts f s = (Inl e, s)"
  by (simp add: runTransaction_def)

lemma runTransaction_Inr:
  "f s = Inr (ws, r) \<Longrightarrow> runTransaction ts f s = (Inr r, foldl (apply_write ts) s ws)"
  by (simp add: runTransaction_def)

lemma createTeam_unauth:
  "createTeam ts None pw mx now idGen passGen s = (Inl Unauthenticated, s)"
  by (simp add: createTeam_def validateAuth_def)

lemma createTeam_Inl:
  "createTeam_tx uid pw mx now idGen passGen s = Inl e \<Longrightarrow>
   createTeam ts (Some uid) pw mx now idGen passGen s = (Inl (handleTeamError e), s)"
  by (simp add: createTeam_def validateAuth_def runTransaction_Inl)

lemma createTeam_Inr:
  "createTeam_tx uid pw mx now idGen passGen s = Inr (ws, (tid, p)) \<Longrightarrow>
   createTeam ts (Some uid) pw mx now idGen passGen s =
     (Inr (Created tid p), foldl (apply_write ts) s ws)"
  by (simp add: createTeam_def validateAuth_def runTransaction_Inr)

lemma leaveTeam_unauth: "leaveTeam ts None s = (Inl Unauthenticated, s)"
  by (simp add: leaveTeam_def validateAuth_def)

lemma leaveTeam_Inl:
  "leaveTeam_tx uid s = Inl e \<Longrightarrow> leaveTeam ts (Some uid) s = (Inl (handleTeamError e), s)"
  by (simp add: leaveTeam_def validateAuth_def runTransaction_Inl)

lemma leaveTeam_Inr:
  "leaveTeam_tx uid s = Inr (ws, r) \<Longrightarrow>
   leaveTeam ts (Some uid) s = (Inr Left, foldl (apply_write ts) s ws)"
  by (simp add: leaveTeam_def validateAuth_def runTransaction_Inr)

lemma joinTeam_unauth: "joinTeam ts None i p s = (Inl Unauthenticated, s)"
  by (simp add: joinTeam_def validateAuth_def)

lemma joinTeam_Inl:
  "joinTeam_tx uid i p s = Inl e \<Longrightarrow>
   joinTeam ts (Some uid) i p s = (Inl (handleTeamError e), s)"
  by (simp add: joinTeam_def validateAuth_def runTransaction_Inl)

lemma joinTeam_Inr:
  "joinTeam_tx uid i p s = Inr (ws, r) \<Longrightarrow>
   joinTeam ts (Some uid) i p s = (Inr Joined, foldl (apply_write ts) s ws)"
  by (simp add: joinTeam_def validateAuth_def runTransaction_Inr)

lemma kickTeamMember_unauth: "kickTeamMember ts None k s = (Inl Unauthenticated, s)"
  by (simp add: kickTeamMember_def validateAuth_def)

lemma kickTeamMember_invalid:
  "\<not> truthy k \<or> k = Some uid \<Longrightarrow>
   kickTeamMember ts (Some uid) k s = (Inl InvalidArgument, s)"
  by (auto simp: kickTeamMember_def validateAuth_def truthy_def split: option.splits)

lemma kickTeamMember_Inl:
  "kickTeamMember_tx uid k s = Inl e \<Longrightarrow> k \<noteq> [] \<Longrightarrow> k \<noteq> uid \<Longrightarrow>
   kickTeamMember ts (Some uid) (Some k) s = (Inl (handleTeamError e), s)"
  by (simp add: kickTeamMember_def validateAuth_def runTransaction_Inl)

lemma kickTeamMember_Inr:
  "kickTeamMember_tx uid k s = Inr (ws, r) \<Longrightarrow> k \<noteq> [] \<Longrightarrow> k \<noteq> uid \<Longrightarrow>
   kickTeamMember ts (Some uid) (Some k) s = (Inr Kicked, foldl (apply_write ts) s ws)"
  by (simp add: kickTeamMember_def validateAuth_def runTransaction_Inr)

subsection \<open>Document paths\<close>

lemma split_slash_no_slash: "CHR ''/'' \<notin> set cs \<Longrightarrow> split_slash cs = [cs]"
  by (induction cs) auto

lemma double_slash_has_slash: "double_slash cs \<Longrightarrow> CHR ''/'' \<in> set cs"
  by (induction cs rule: double_slash.induct) auto

lemma plain_id_accepted: "plain_id tid \<Longrightarrow> \<not> doc_throws tid"
  by (auto simp: plain_id_def doc_throws_def path_segments_def split_slash_no_slash
      dest: double_slash_has_slash)

subsection \<open>When the callbacks return, and what they buffer\<close>

lemma createTeam_tx_Inr_iff:
  "createTeam_tx uid pw mx now idGen passGen s = Inr (ws, r) \<longleftrightarrow>
     current_team (system_coll s uid) = None \<and> \<not> cooldown_active s uid now
     \<and> (\<exists>tid. idGen = Returns (Some tid) \<and> tid \<noteq> []
          \<and> ws = [SetTeamNew tid uid (final_password pw passGen)
                     (case mx of None \<Rightarrow> 10 | Some m \<Rightarrow> if m \<noteq> 0 then m else 10) [uid],
                   MergeSystemTeam uid tid]
          \<and> r = (tid, final_password pw passGen))"
  unfolding createTeam_tx_def cooldown_active_def final_password_def truthy_def Let_def
  by (cases idGen; cases pw; cases "system_coll s uid"; auto split: option.splits)

lemma leaveTeam_tx_none:
  "current_team (system_coll s uid) = None \<Longrightarrow>
   leaveTeam_tx uid s = Inl (HttpsError FailedPrecondition)"
  by (simp add: leaveTeam_tx_def)

lemma leaveTeam_tx_owner:
  "current_team (system_coll s uid) = Some t \<Longrightarrow> team_coll s t = Some td \<Longrightarrow>
   owner td = Some uid \<Longrightarrow>
   leaveTeam_tx uid s = Inr (map MergeSystemLeft (roster td) @ [DeleteTeamDoc t], ())"
  by (simp add: leaveTeam_tx_def)

lemma leaveTeam_tx_member:
  "current_team (system_coll s uid) = Some t \<Longrightarrow>
   (\<forall>td. team_coll s t = Some td \<longrightarrow> owner td \<noteq> Some uid) \<Longrightarrow>
   leaveTeam_tx uid s = Inr ([MergeMembers t (ArrayRemove uid), MergeSystemLeft uid], ())"
  by (simp add: leaveTeam_tx_def split: option.splits)

lemma joinTeam_tx_Inr_iff:
  "joinTeam_tx uid i p s = Inr (ws, r) \<longleftrightarrow>
     current_team (system_coll s uid) = None \<and> truthy i \<and> truthy p
     \<and> (\<exists>tid td. i = Some tid \<and> \<not> doc_throws tid \<and> team_coll s tid = Some td
           \<and> password td = p \<and> of_nat (length (roster td)) < capacity td
           \<and> ws = [MergeMembers tid (ArrayUnion uid), MergeSystemTeam uid tid])"
  unfolding joinTeam_tx_def truthy_def
  by (cases i; cases p) (auto split: option.splits)

lemma kickTeamMember_tx_Inr_iff:
  "kickTeamMember_tx uid k s = Inr (ws, r) \<longleftrightarrow>
     (\<exists>t td. current_team (system_coll s uid) = Some t \<and> team_coll s t = Some td
        \<and> owner td = Some uid \<and> k \<in> set (roster td)
        \<and> ws = [MergeMembers t (ArrayRemove k), MergeSystemLeft k])"
  unfolding kickTeamMember_tx_def
  by (auto split: option.splits)

subsection \<open>The disband loop\<close>

lemma team_coll_foldl_MergeSystemLeft:
  "team_coll (foldl (apply_write ts) s (map MergeSystemLeft ms)) = team_coll s"
  by (induction ms arbitrary: s) simp_all


subsection \<open>Rosters under \<open>arrayUnion\<close> and \<open>arrayRemove\<close>\<close>



lemma roster_members [simp]: "roster (td\<lparr>members := Some ms\<rparr>) = ms"
  by (simp add: roster_def)

lemma capacity_members [simp]: "capacity (td\<lparr>members := ms\<rparr>) = capacity td"
  by (simp add: capacity_def)



lemma length_arrayUnion:
  "length (apply_field_value (ArrayUnion u) (members td)) \<le> Suc (length (roster td))"
  by (cases "members td") (auto simp: roster_def)

lemma length_arrayRemove:
  "length (apply_field_value (ArrayRemove u) (members td)) \<le> length (roster td)"
  by (cases "members td") (auto simp: roster_def removeAll_filter_not_eq intro: le_trans[OF length_filter_le])

lemma roster_empty_team_doc [simp]: "roster empty_team_doc = []"
  by (simp add: roster_def empty_team_doc_def)

lemma capacity_empty_team_doc [simp]: "capacity empty_team_doc = 10"
  by (simp add: capacity_def empty_team_doc_def)

lemma members_empty_team_doc [simp]: "members empty_team_doc = None"
  by (simp add: empty_team_doc_def)

subsection \<open>The membership invariant under single writes\<close>








subsection \<open>createTeam: blocked, or created\<close>

lemma createTeam_tx_blocked:
  "current_team (system_coll s uid) \<noteq> None \<or> cooldown_active s uid now \<Longrightarrow>
   createTeam_tx uid pw mx now idGen passGen s = Inl (HttpsError FailedPrecondition)"
  unfolding createTeam_tx_def cooldown_active_def
  by (auto split: option.splits)

lemma createTeam_blocked:
  "current_team (system_coll s uid) \<noteq> None \<or> cooldown_active s uid now \<Longrightarrow>
   createTeam ts (Some uid) pw mx now idGen passGen s = (Inl FailedPrecondition, s)"
  by (simp add: createTeam_tx_blocked createTeam_Inl handleTeamError_def)

lemma createTeam_created:
  assumes "current_team (system_coll s uid) = None" and "\<not> cooldown_active s uid now"
    and "tid \<noteq> []"
  shows "createTeam ts (Some uid) pw mx now (Returns (Some tid)) passGen s =
     (Inr (Created tid (final_password pw passGen)),
      apply_write ts
        (apply_write ts s
           (SetTeamNew tid uid (final_password pw passGen)
              (case mx of None \<Rightarrow> 10 | Some m \<Rightarrow> if m \<noteq> 0 then m else 10) [uid]))
        (MergeSystemTeam uid tid))"
proof -
  have "createTeam_tx uid pw mx now (Returns (Some tid)) passGen s =
      Inr ([SetTeamNew tid uid (final_password pw passGen)
              (case mx of None \<Rightarrow> 10 | Some m \<Rightarrow> if m \<noteq> 0 then m else 10) [uid],
            MergeSystemTeam uid tid], (tid, final_password pw passGen))"
    using assms by (simp add: createTeam_tx_Inr_iff)
  then show ?thesis by (simp add: createTeam_Inr)
qed

lemma createTeam_success:
  assumes "fst (createTeam ts (Some uid) pw mx now idGen passGen s) = Inr r"
  shows "current_team (system_coll s uid) = None \<and> \<not> cooldown_active s uid now
     \<and> (\<exists>tid. idGen = Returns (Some tid) \<and> tid \<noteq> [])"
proof (cases "createTeam_tx uid pw mx now idGen passGen s")
  case (Inl e)
  with assms show ?thesis by (simp add: createTeam_Inl)
next
  case (Inr y)
  obtain ws q where "y = (ws, q)" by (cases y) auto
  with Inr show ?thesis by (auto simp: createTeam_tx_Inr_iff)
qed

subsection \<open>A failed call commits nothing\<close>

lemma createTeam_failure:
  assumes "fst (createTeam ts auth pw mx now idGen passGen s) = Inl e"
  shows "snd (createTeam ts auth pw mx now idGen passGen s) = s"
proof (cases auth)
  case None
  then show ?thesis by (simp add: createTeam_unauth)
next
  case (Some uid)
  show ?thesis
  proof (cases "createTeam_tx uid pw mx now idGen passGen s")
    case (Inl x)
    with Some show ?thesis by (simp add: createTeam_Inl)
  next
    case (Inr y)
    obtain ws tid p where "y = (ws, (tid, p))" by (cases y) auto
    with Inr Some assms show ?thesis by (simp add: createTeam_Inr)
  qed
qed

lemma joinTeam_failure:
  assumes "fst (joinTeam ts auth i p s) = Inl e"
  shows "snd (joinTeam ts auth i p s) = s"
proof (cases auth)
  case None
  then show ?thesis by (simp add: joinTeam_unauth)
next
  case (Some uid)
  show ?thesis
  proof (cases "joinTeam_tx uid i p s")
    case (Inl x)
    with Some show ?thesis by (simp add: joinTeam_Inl)
  next
    case (Inr y)
    obtain ws r where "y = (ws, r)" by (cases y) auto
    with Inr Some assms show ?thesis by (simp add: joinTeam_Inr)
  qed
qed

lemma leaveTeam_failure:
  assumes "fst (leaveTeam ts auth s) = Inl e"
  shows "snd (leaveTeam ts auth s) = s"
proof (cases auth)
  case None
  then show ?thesis by (simp add: leaveTeam_unauth)
next
  case (Some uid)
  show ?thesis
  proof (cases "leaveTeam_tx uid s")
    case (Inl x)
    with Some show ?thesis by (simp add: leaveTeam_Inl)
  next
    case (Inr y)
    obtain ws r where "y = (ws, r)" by (cases y) auto
    with Inr Some assms show ?thesis by (simp add: leaveTeam_Inr)
  qed
qed

lemma kickTeamMember_failure:
  assumes "fst (kickTeamMember ts auth k s) = Inl e"
  shows "snd (kickTeamMember ts auth k s) = s"
proof (cases auth)
  case None
  then show ?thesis by (simp add: kickTeamMember_unauth)
next
  case (Some uid)
  show ?thesis
  proof (cases "\<not> truthy k \<or> k = Some uid")
    case True
    with Some show ?thesis by (simp add: kickTeamMember_invalid)
  next
    case False
    then obtain kicked where k: "k = Some kicked" "kicked \<noteq> []" "kicked \<noteq> uid"
      by (cases k) (auto simp: truthy_def)
    show ?thesis
    proof (cases "kickTeamMember_tx uid kicked s")
      case (Inl x)
      with Some k show ?thesis by (simp add: kickTeamMember_Inl)
    next
      case (Inr y)
      obtain ws r where "y = (ws, r)" by (cases y) auto
      with Inr Some k assms show ?thesis by (simp add: kickTeamMember_Inr)
    qed
  qed
qed

text \<open>
  C2: whenever one of the four operations returns an error, the store after the call is
  the store before it.
\<close>

theorem failure_leaves_store:
  "fst (coordinator ts op s) = Inl e \<Longrightarrow> snd (coordinator ts op s) = s"
  by (cases op)
     (simp_all add: createTeam_failure joinTeam_failure leaveTeam_failure kickTeamMember_failure)

theorem failure_leaves_store_witness:
  "fst (coordinator 5 (JoinTeam (Some ''zed'') (Some ''T1'') (Some ''wrong'')) squad_store)
     = Inl Unauthenticated
   \<and> snd (coordinator 5 (JoinTeam (Some ''zed'') (Some ''T1'') (Some ''wrong'')) squad_store)
     = squad_store"
proof -
  have h: "fst (coordinator 5 (JoinTeam (Some ''zed'') (Some ''T1'') (Some ''wrong'')) squad_store)
     = Inl Unauthenticated"
    by (simp add: joinTeam_def validateAuth_def runTransaction_def joinTeam_tx_def
        current_team_def truthy_def handleTeamError_def squad_store_def
        doc_throws_def path_segments_def)
  from failure_leaves_store[OF h] h show ?thesis by simp
qed

subsection \<open>What a successful call commits\<close>

lemma joinTeam_success:
  assumes "fst (joinTeam ts (Some uid) i p s) = Inr r"
  shows "\<exists>tid td. i = Some tid \<and> tid \<noteq> [] \<and> \<not> doc_throws tid \<and> truthy p
     \<and> current_team (system_coll s uid) = None
     \<and> team_coll s tid = Some td \<and> password td = p
     \<and> of_nat (length (roster td)) < capacity td
     \<and> joinTeam ts (Some uid) i p s =
         (Inr Joined, apply_write ts (apply_write ts s (MergeMembers tid (ArrayUnion uid)))
                        (MergeSystemTeam uid tid))"
proof (cases "joinTeam_tx uid i p s")
  case (Inl x)
  with assms show ?thesis by (simp add: joinTeam_Inl)
next
  case (Inr y)
  obtain ws q where y: "y = (ws, q)" by (cases y) auto
  from Inr[unfolded y] joinTeam_Inr[OF Inr[unfolded y], of ts]
  show ?thesis by (auto simp: joinTeam_tx_Inr_iff truthy_def)
qed

lemma kickTeamMember_success:
  assumes "fst (kickTeamMember ts (Some uid) k s) = Inr r"
  shows "\<exists>kicked t td. k = Some kicked \<and> kicked \<noteq> [] \<and> kicked \<noteq> uid
     \<and> current_team (system_coll s uid) = Some t \<and> team_coll s t = Some td
     \<and> owner td = Some uid \<and> kicked \<in> set (roster td)
     \<and> kickTeamMember ts (Some uid) k s =
         (Inr Kicked, apply_write ts (apply_write ts s (MergeMembers t (ArrayRemove kicked)))
                        (MergeSystemLeft kicked))"
proof (cases "\<not> truthy k \<or> k = Some uid")
  case True
  with assms show ?thesis by (simp add: kickTeamMember_invalid)
next
  case False
  then obtain kicked where k: "k = Some kicked" "kicked \<noteq> []" "kicked \<noteq> uid"
    by (cases k) (auto simp: truthy_def)
  show ?thesis
  proof (cases "kickTeamMember_tx uid kicked s")
    case (Inl x)
    with assms k show ?thesis by (simp add: kickTeamMember_Inl)
  next
    case (Inr y)
    obtain ws q where y: "y = (ws, q)" by (cases y) auto
    from Inr[unfolded y] kickTeamMember_Inr[OF Inr[unfolded y] k(2,3), of ts] k
    show ?thesis by (auto simp: kickTeamMember_tx_Inr_iff)
  qed
qed

lemma leaveTeam_cases:
  obtains (not_in_team) "current_team (system_coll s uid) = None"
      "leaveTeam ts (Some uid) s = (Inl FailedPrecondition, s)"
  | (disband) t td where "current_team (system_coll s uid) = Some t" "team_coll s t = Some td"
      "owner td = Some uid"
      "leaveTeam ts (Some uid) s =
         (Inr Left, apply_write ts (foldl (apply_write ts) s (map MergeSystemLeft (roster td)))
                      (DeleteTeamDoc t))"
  | (member) t where "current_team (system_coll s uid) = Some t"
      "\<forall>td. team_coll s t = Some td \<longrightarrow> owner td \<noteq> Some uid"
      "leaveTeam ts (Some uid) s =
         (Inr Left, apply_write ts (apply_write ts s (MergeMembers t (ArrayRemove uid)))
                      (MergeSystemLeft uid))"
proof (cases "current_team (system_coll s uid)")
  case None
  then have "leaveTeam ts (Some uid) s = (Inl FailedPrecondition, s)"
    by (simp add: leaveTeam_tx_none leaveTeam_Inl handleTeamError_def)
  with None show ?thesis by (rule not_in_team)
next
  case (Some t)
  show ?thesis
  proof (cases "\<exists>td. team_coll s t = Some td \<and> owner td = Some uid")
    case True
    then obtain td where td: "team_coll s t = Some td" "owner td = Some uid" by blast
    have "leaveTeam ts (Some uid) s =
         (Inr Left, apply_write ts (foldl (apply_write ts) s (map MergeSystemLeft (roster td)))
                      (DeleteTeamDoc t))"
      using leaveTeam_Inr[OF leaveTeam_tx_owner[OF Some td], of ts] by simp
    with Some td show ?thesis by (rule disband)
  next
    case False
    then have no: "\<forall>td. team_coll s t = Some td \<longrightarrow> owner td \<noteq> Some uid" by blast
    have "leaveTeam ts (Some uid) s =
         (Inr Left, apply_write ts (apply_write ts s (MergeMembers t (ArrayRemove uid)))
                      (MergeSystemLeft uid))"
      using leaveTeam_Inr[OF leaveTeam_tx_member[OF Some no], of ts] by simp
    with Some no show ?thesis by (rule member)
  qed
qed

subsection \<open>The membership invariant under the operations\<close>









subsection \<open>The size bound under single writes\<close>

lemma capacity_inv_iff:
  "capacity_inv s \<longleftrightarrow>
     (\<forall>t td. team_coll s t = Some td \<longrightarrow> of_nat (length (roster td)) \<le> capacity td)"
  by (auto simp: capacity_inv_def team_ok_def split: option.splits)

lemma whole_capacities_iff:
  "whole_capacities s \<longleftrightarrow> (\<forall>t td. team_coll s t = Some td \<longrightarrow> is_whole (capacity td))"
  by (auto simp: whole_capacities_def split: option.splits)

lemma is_whole_Ints: "is_whole m \<longleftrightarrow> m \<in> \<int>"
proof
  assume "is_whole m"
  then have "m = of_int \<lfloor>m\<rfloor>" unfolding is_whole_def by (rule sym)
  then show "m \<in> \<int>" by (metis Ints_of_int)
next
  assume "m \<in> \<int>"
  then obtain z where "m = of_int z" by (rule Ints_cases)
  then show "is_whole m" unfolding is_whole_def by (simp only: floor_of_int)
qed

lemma is_whole_10: "is_whole 10"
  by (simp add: is_whole_def)

text \<open>Below a whole capacity there is room for one more member.\<close>

lemma whole_room:
  assumes "is_whole c" and "of_nat n < c"
  shows "of_nat (Suc n) \<le> c"
proof -
  from assms(1) obtain z :: int where c: "c = of_int z"
    by (auto simp: is_whole_Ints elim: Ints_cases)
  from assms(2) have "(of_int (int n) :: rat) < of_int z"
    unfolding c by simp
  then have "int n < z"
    by (simp only: of_int_less_iff)
  then have "int (Suc n) \<le> z"
    by simp
  then have "(of_int (int (Suc n)) :: rat) \<le> of_int z"
    by (simp only: of_int_le_iff)
  then show ?thesis
    unfolding c by simp
qed

lemma whole_positive:
  assumes "is_whole m" and "0 \<le> m" and "m \<noteq> 0"
  shows "1 \<le> m"
proof -
  from assms(2,3) have "(of_nat 0 :: rat) < m" by simp
  from whole_room[OF assms(1) this] show ?thesis by simp
qed

lemma cap_setTeamNew:
  assumes "capacity_inv s" and "of_nat (length ms) \<le> m"
  shows "capacity_inv (apply_write ts s (SetTeamNew tid own p m ms))"
  using assms unfolding capacity_inv_iff
  by (auto simp: roster_def capacity_def split: if_splits)

lemma whole_setTeamNew:
  assumes "whole_capacities s" and "is_whole m"
  shows "whole_capacities (apply_write ts s (SetTeamNew tid own p m ms))"
  using assms unfolding whole_capacities_iff
  by (auto simp: capacity_def split: if_splits)

lemma cap_arrayUnion:
  assumes "capacity_inv s"
    and "\<And>td. team_coll s tid = Some td \<Longrightarrow> of_nat (Suc (length (roster td))) \<le> capacity td"
  shows "capacity_inv (apply_write ts s (MergeMembers tid (ArrayUnion u)))"
  unfolding capacity_inv_iff
proof (intro allI impI)
  fix t td'
  assume a: "team_coll (apply_write ts s (MergeMembers tid (ArrayUnion u))) t = Some td'"
  show "of_nat (length (roster td')) \<le> capacity td'"
  proof (cases "t = tid")
    case False
    with a assms(1) show ?thesis unfolding capacity_inv_iff by simp
  next
    case True
    show ?thesis
    proof (cases "team_coll s tid")
      case None
      with a True show ?thesis by (auto simp: team_or_empty_def)
    next
      case (Some td)
      have "(of_nat (length (apply_field_value (ArrayUnion u) (members td))) :: rat)
          \<le> of_nat (Suc (length (roster td)))"
        using length_arrayUnion[of u td] by (simp only: of_nat_le_iff)
      with assms(2)[OF Some]
      have "of_nat (length (apply_field_value (ArrayUnion u) (members td))) \<le> capacity td"
        by (rule order_trans[rotated])
      with a True Some show ?thesis by (auto simp: team_or_empty_def)
    qed
  qed
qed

lemma cap_arrayRemove:
  assumes "capacity_inv s"
  shows "capacity_inv (apply_write ts s (MergeMembers tid (ArrayRemove u)))"
  unfolding capacity_inv_iff
proof (intro allI impI)
  fix t td'
  assume a: "team_coll (apply_write ts s (MergeMembers tid (ArrayRemove u))) t = Some td'"
  show "of_nat (length (roster td')) \<le> capacity td'"
  proof (cases "t = tid")
    case False
    with a assms(1) show ?thesis unfolding capacity_inv_iff by simp
  next
    case True
    show ?thesis
    proof (cases "team_coll s tid")
      case None
      with a True show ?thesis by (auto simp: team_or_empty_def)
    next
      case (Some td)
      from assms Some have b: "of_nat (length (roster td)) \<le> capacity td"
        unfolding capacity_inv_iff by blast
      have "(of_nat (length (apply_field_value (ArrayRemove u) (members td))) :: rat)
          \<le> of_nat (length (roster td))"
        using length_arrayRemove[of u td] by (simp only: of_nat_le_iff)
      with b have "of_nat (length (apply_field_value (ArrayRemove u) (members td))) \<le> capacity td"
        by (rule order_trans[rotated])
      with a True Some show ?thesis by (auto simp: team_or_empty_def)
    qed
  qed
qed

lemma whole_members:
  assumes "whole_capacities s"
  shows "whole_capacities (apply_write ts s (MergeMembers tid fv))"
  unfolding whole_capacities_iff
proof (intro allI impI)
  fix t td'
  assume a: "team_coll (apply_write ts s (MergeMembers tid fv)) t = Some td'"
  show "is_whole (capacity td')"
  proof (cases "t = tid")
    case False
    with a assms show ?thesis unfolding whole_capacities_iff by simp
  next
    case True
    show ?thesis
    proof (cases "team_coll s tid")
      case None
      with a True show ?thesis by (auto simp: team_or_empty_def is_whole_10)
    next
      case (Some td)
      from assms Some have "is_whole (capacity td)"
        unfolding whole_capacities_iff by blast
      with a True Some show ?thesis by (auto simp: team_or_empty_def)
    qed
  qed
qed

lemma cap_system:
  assumes "capacity_inv s"
  shows "capacity_inv (apply_write ts s (MergeSystemTeam u tid))"
    and "capacity_inv (apply_write ts s (MergeSystemLeft u))"
  using assms unfolding capacity_inv_iff by simp_all

lemma whole_system:
  assumes "whole_capacities s"
  shows "whole_capacities (apply_write ts s (MergeSystemTeam u tid))"
    and "whole_capacities (apply_write ts s (MergeSystemLeft u))"
  using assms unfolding whole_capacities_iff by simp_all

lemma cap_foldl_systemLeft:
  "capacity_inv s \<Longrightarrow> capacity_inv (foldl (apply_write ts) s (map MergeSystemLeft ms))"
  unfolding capacity_inv_iff by (simp add: team_coll_foldl_MergeSystemLeft)

lemma whole_foldl_systemLeft:
  "whole_capacities s \<Longrightarrow> whole_capacities (foldl (apply_write ts) s (map MergeSystemLeft ms))"
  unfolding whole_capacities_iff by (simp add: team_coll_foldl_MergeSystemLeft)

lemma cap_delete:
  assumes "capacity_inv s"
  shows "capacity_inv (apply_write ts s (DeleteTeamDoc tid))"
  using assms unfolding capacity_inv_iff by (auto split: if_splits)

lemma whole_delete:
  assumes "whole_capacities s"
  shows "whole_capacities (apply_write ts s (DeleteTeamDoc tid))"
  using assms unfolding whole_capacities_iff by (auto split: if_splits)

subsection \<open>The size bound under the operations\<close>

lemma createTeam_capacity_inv:
  assumes inv: "capacity_inv s" "whole_capacities s"
    and sane: "\<And>m. mx = Some m \<Longrightarrow> 0 \<le> m \<and> is_whole m"
  shows "capacity_inv (snd (createTeam ts auth pw mx now idGen passGen s))
     \<and> whole_capacities (snd (createTeam ts auth pw mx now idGen passGen s))"
proof (cases "fst (createTeam ts auth pw mx now idGen passGen s)")
  case (Inl e)
  with inv show ?thesis by (simp add: createTeam_failure)
next
  case (Inr r)
  then obtain uid where auth: "auth = Some uid"
    by (cases auth) (simp_all add: createTeam_unauth)
  from createTeam_success[OF Inr[unfolded auth]] obtain tid where
    pre: "current_team (system_coll s uid) = None" "\<not> cooldown_active s uid now"
    and tid: "idGen = Returns (Some tid)" "tid \<noteq> []" by blast
  let ?m = "case mx of None \<Rightarrow> 10 | Some m \<Rightarrow> if m \<noteq> 0 then m else (10::number)"
  let ?w = "SetTeamNew tid uid (final_password pw passGen) ?m [uid]"
  have w: "is_whole ?m"
    using sane by (cases mx) (auto simp: is_whole_10)
  have "1 \<le> ?m"
    using sane by (cases mx) (auto intro: whole_positive)
  then have "of_nat (length [uid]) \<le> ?m" by simp
  with inv(1) have "capacity_inv (apply_write ts s ?w)"
    by (rule cap_setTeamNew)
  then have c: "capacity_inv (apply_write ts (apply_write ts s ?w) (MergeSystemTeam uid tid))"
    by (rule cap_system)
  from inv(2) w have "whole_capacities (apply_write ts s ?w)"
    by (rule whole_setTeamNew)
  then have "whole_capacities (apply_write ts (apply_write ts s ?w) (MergeSystemTeam uid tid))"
    by (rule whole_system)
  with c show ?thesis
    unfolding auth tid(1) createTeam_created[OF pre tid(2)] by simp
qed

lemma joinTeam_capacity_inv:
  assumes inv: "capacity_inv s" "whole_capacities s"
  shows "capacity_inv (snd (joinTeam ts auth i p s))
     \<and> whole_capacities (snd (joinTeam ts auth i p s))"
proof (cases "fst (joinTeam ts auth i p s)")
  case (Inl e)
  with inv show ?thesis by (simp add: joinTeam_failure)
next
  case (Inr r)
  then obtain uid where auth: "auth = Some uid"
    by (cases auth) (simp_all add: joinTeam_unauth)
  from joinTeam_success[OF Inr[unfolded auth]] obtain tid td where
    td: "team_coll s tid = Some td" "of_nat (length (roster td)) < capacity td"
    and eq: "joinTeam ts (Some uid) i p s =
         (Inr Joined, apply_write ts (apply_write ts s (MergeMembers tid (ArrayUnion uid)))
                        (MergeSystemTeam uid tid))" by blast
  from inv(2) td(1) have "is_whole (capacity td)"
    unfolding whole_capacities_iff by blast
  from whole_room[OF this td(2)] have room: "of_nat (Suc (length (roster td))) \<le> capacity td" .
  have "capacity_inv (apply_write ts s (MergeMembers tid (ArrayUnion uid)))"
    using inv(1) td(1) room by (intro cap_arrayUnion) auto
  then have c: "capacity_inv (apply_write ts (apply_write ts s (MergeMembers tid (ArrayUnion uid)))
                        (MergeSystemTeam uid tid))"
    by (rule cap_system)
  have "whole_capacities (apply_write ts (apply_write ts s (MergeMembers tid (ArrayUnion uid)))
                        (MergeSystemTeam uid tid))"
    by (intro whole_system whole_members inv)
  with c show ?thesis unfolding auth eq by simp
qed

lemma kickTeamMember_capacity_inv:
  assumes inv: "capacity_inv s" "whole_capacities s"
  shows "capacity_inv (snd (kickTeamMember ts auth k s))
     \<and> whole_capacities (snd (kickTeamMember ts auth k s))"
proof (cases "fst (kickTeamMember ts auth k s)")
  case (Inl e)
  with inv show ?thesis by (simp add: kickTeamMember_failure)
next
  case (Inr r)
  then obtain uid where auth: "auth = Some uid"
    by (cases auth) (simp_all add: kickTeamMember_unauth)
  from kickTeamMember_success[OF Inr[unfolded auth]] obtain kicked t where
    eq: "kickTeamMember ts (Some uid) k s =
         (Inr Kicked, apply_write ts (apply_write ts s (MergeMembers t (ArrayRemove kicked)))
                        (MergeSystemLeft kicked))" by blast
  have c: "capacity_inv (apply_write ts (apply_write ts s (MergeMembers t (ArrayRemove kicked)))
                        (MergeSystemLeft kicked))"
    by (intro cap_system cap_arrayRemove inv)
  have "whole_capacities (apply_write ts (apply_write ts s (MergeMembers t (ArrayRemove kicked)))
                        (MergeSystemLeft kicked))"
    by (intro whole_system whole_members inv)
  with c show ?thesis unfolding auth eq by simp
qed

lemma leaveTeam_capacity_inv:
  assumes inv: "capacity_inv s" "whole_capacities s"
  shows "capacity_inv (snd (leaveTeam ts auth s))
     \<and> whole_capacities (snd (leaveTeam ts auth s))"
proof (cases auth)
  case None
  with inv show ?thesis by (simp add: leaveTeam_unauth)
next
  case (Some uid)
  show ?thesis
  proof (cases rule: leaveTeam_cases[of s uid ts])
    case not_in_team
    with inv Some show ?thesis by simp
  next
    case (disband t td)
    have c: "capacity_inv (apply_write ts (foldl (apply_write ts) s (map MergeSystemLeft (roster td)))
                      (DeleteTeamDoc t))"
      by (intro cap_delete cap_foldl_systemLeft inv)
    have "whole_capacities (apply_write ts
        (foldl (apply_write ts) s (map MergeSystemLeft (roster td))) (DeleteTeamDoc t))"
      by (intro whole_delete whole_foldl_systemLeft inv)
    with c Some disband(4) show ?thesis by simp
  next
    case (member t)
    have c: "capacity_inv (apply_write ts (apply_write ts s (MergeMembers t (ArrayRemove uid)))
                      (MergeSystemLeft uid))"
      by (intro cap_system cap_arrayRemove inv)
    have "whole_capacities (apply_write ts (apply_write ts s (MergeMembers t (ArrayRemove uid)))
                      (MergeSystemLeft uid))"
      by (intro whole_system whole_members inv)
    with c Some member(3) show ?thesis by simp
  qed
qed

lemma joinTeam_full:
  assumes "team_coll s tid = Some td" and "capacity td \<le> of_nat (length (roster td))"
  shows "fst (joinTeam ts auth (Some tid) pw s) \<noteq> Inr r"
proof (cases auth)
  case None
  then show ?thesis by (simp add: joinTeam_unauth)
next
  case (Some uid)
  show ?thesis
  proof
    assume "fst (joinTeam ts auth (Some tid) pw s) = Inr r"
    from joinTeam_success[OF this[unfolded Some]] assms show False by auto
  qed
qed

lemma joinTeam_tx_exhausted:
  assumes "current_team (system_coll s uid) = None" and "\<not> doc_throws tid" and "truthy pw"
    and "team_coll s tid = Some td" and "password td = pw"
    and "capacity td \<le> of_nat (length (roster td))"
  shows "joinTeam_tx uid (Some tid) pw s = Inl (HttpsError ResourceExhausted)"
proof -
  from assms(2) have "tid \<noteq> []" by (auto simp: doc_throws_def)
  with assms show ?thesis by (simp add: joinTeam_tx_def truthy_def)
qed

text \<open>
  C3, amended: if every team's roster is no longer than its capacity (\<open>maximumMembers\<close>,
  read as 10 when the field is missing), every capacity is a whole number, and the
  \<open>maximumMembers\<close> argument of a \<open>createTeam\<close> request, when present, is a whole number
  that is not negative, then after any operation every roster is again no longer than its
  capacity and every capacity is a whole number; a \<open>joinTeam\<close> on a team whose roster has
  reached the capacity never succeeds, and fails with \<open>resource-exhausted\<close> when the checks
  before it pass.
\<close>

theorem capacity_invariant_preserved:
  assumes "capacity_inv s" and "whole_capacities s" and "sane_maximum op"
  shows "capacity_inv (snd (coordinator ts op s))
     \<and> whole_capacities (snd (coordinator ts op s))
     \<and> (team_coll s tid = Some td \<and> capacity td \<le> of_nat (length (roster td)) \<longrightarrow>
          fst (coordinator ts (JoinTeam auth (Some tid) pw) s) \<noteq> Inr r
          \<and> (current_team (system_coll s uid) = None \<and> plain_id tid \<and> truthy (password td) \<longrightarrow>
               coordinator ts (JoinTeam (Some uid) (Some tid) (password td)) s =
                 (Inl ResourceExhausted, s)))"
proof -
  have inv: "capacity_inv (snd (coordinator ts op s))
     \<and> whole_capacities (snd (coordinator ts op s))"
  proof (cases op)
    case (CreateTeam auth pw mx now idGen passGen)
    have "0 \<le> m \<and> is_whole m" if "mx = Some m" for m
      using assms(3) that unfolding CreateTeam sane_maximum_def by simp
    with assms(1,2) show ?thesis unfolding CreateTeam
      by (simp add: createTeam_capacity_inv)
  next
    case (JoinTeam auth tid pw)
    with assms(1,2) show ?thesis by (simp add: joinTeam_capacity_inv)
  next
    case (LeaveTeam auth)
    with assms(1,2) show ?thesis by (simp add: leaveTeam_capacity_inv)
  next
    case (KickTeamMember auth kicked)
    with assms(1,2) show ?thesis by (simp add: kickTeamMember_capacity_inv)
  qed
  have full: "fst (coordinator ts (JoinTeam auth (Some tid) pw) s) \<noteq> Inr r"
    if "team_coll s tid = Some td \<and> capacity td \<le> of_nat (length (roster td))"
    using that by (simp add: joinTeam_full)
  have exhausted: "coordinator ts (JoinTeam (Some uid) (Some tid) (password td)) s =
      (Inl ResourceExhausted, s)"
    if a: "team_coll s tid = Some td \<and> capacity td \<le> of_nat (length (roster td))"
      and b: "current_team (system_coll s uid) = None \<and> plain_id tid \<and> truthy (password td)"
  proof -
    from b have "\<not> doc_throws tid" by (simp add: plain_id_accepted)
    with a b have "joinTeam_tx uid (Some tid) (password td) s = Inl (HttpsError ResourceExhausted)"
      by (intro joinTeam_tx_exhausted) auto
    then show ?thesis by (simp add: joinTeam_Inl handleTeamError_def)
  qed
  from inv full exhausted show ?thesis by blast
qed

lemma squad_capacity: "capacity_inv squad_store"
  unfolding capacity_inv_iff
  by (auto simp: squad_store_def roster_def capacity_def split: if_splits)

lemma squad_whole: "whole_capacities squad_store"
  unfolding whole_capacities_iff
  by (auto simp: squad_store_def capacity_def is_whole_def split: if_splits)

lemma empty_capacity: "capacity_inv empty_store"
  unfolding capacity_inv_iff by (simp add: empty_store_def)

lemma half_capacity: "capacity_inv half_store"
  unfolding capacity_inv_iff
  by (auto simp: half_store_def roster_def capacity_def split: if_splits)

theorem capacity_invariant_preserved_witness:
  "capacity_inv squad_store \<and> whole_capacities squad_store \<and> sane_maximum zed_creates
   \<and> fst (coordinator 5 zed_creates squad_store) = Inr (Created ''T5'' ''ERROR_PASS_456'')
   \<and> map_option maximumMembers (team_coll (snd (coordinator 5 zed_creates squad_store)) ''T5'')
       = Some (Some 3)
   \<and> capacity_inv (snd (coordinator 5 zed_creates squad_store))
   \<and> whole_capacities (snd (coordinator 5 zed_creates squad_store))
   \<and> coordinator 5 squad_join_full squad_store = (Inl ResourceExhausted, squad_store)"
proof -
  have sane: "sane_maximum zed_creates"
    by (simp add: sane_maximum_def zed_creates_def is_whole_def)
  have t: "team_coll squad_store ''T1'' =
      Some \<lparr>owner = Some ''olga'', password = Some ''secret'', maximumMembers = Some 2,
            members = Some [''olga'', ''max''], createdAt = Some 0\<rparr>"
    by (simp add: squad_store_def)
  have z: "current_team (system_coll squad_store ''zed'') = None"
    by (simp add: squad_store_def current_team_def)
  have p: "plain_id ''T1''"
    by (simp add: plain_id_def reserved_id_def)
  have created: "fst (coordinator 5 zed_creates squad_store) = Inr (Created ''T5'' ''ERROR_PASS_456'')
     \<and> map_option maximumMembers (team_coll (snd (coordinator 5 zed_creates squad_store)) ''T5'')
       = Some (Some 3)"
    by (simp add: zed_creates_def createTeam_def validateAuth_def runTransaction_def
        createTeam_tx_def current_team_def squad_store_def Let_def generateSecurePassword_def)
  from capacity_invariant_preserved[OF squad_capacity squad_whole sane,
      where tid = "''T1''" and uid = "''zed''" and ts = 5
        and td = "\<lparr>owner = Some ''olga'', password = Some ''secret'', maximumMembers = Some 2,
            members = Some [''olga'', ''max''], createdAt = Some 0\<rparr>"]
    t z p squad_capacity squad_whole sane created
  show ?thesis
    by (simp add: squad_join_full_def capacity_def roster_def truthy_def)
qed

text \<open>
  As stated, C3 fails. \<open>createTeam\<close> stores a negative \<open>maximumMembers\<close>, and one between 0
  and 1, as given beside a roster of one; and a team whose stored \<open>maximumMembers\<close> is 5/2
  takes a third member, since 2 is less than 5/2.
\<close>

theorem capacity_invariant_counterexample:
  "capacity_inv empty_store
   \<and> fst (coordinator 5 (CreateTeam (Some ''zed'') None (Some (- 1)) 0 (Returns (Some ''T9'')) Throws)
        empty_store) = Inr (Created ''T9'' ''ERROR_PASS_456'')
   \<and> \<not> capacity_inv (snd (coordinator 5
        (CreateTeam (Some ''zed'') None (Some (- 1)) 0 (Returns (Some ''T9'')) Throws) empty_store))
   \<and> \<not> capacity_inv (snd (coordinator 5
        (CreateTeam (Some ''zed'') None (Some (1 / 2)) 0 (Returns (Some ''T9'')) Throws) empty_store))
   \<and> capacity_inv half_store
   \<and> fst (coordinator 5 (JoinTeam (Some ''zed'') (Some ''T1'') (Some ''secret'')) half_store)
       = Inr Joined
   \<and> \<not> capacity_inv (snd (coordinator 5
        (JoinTeam (Some ''zed'') (Some ''T1'') (Some ''secret'')) half_store))"
proof -
  let ?neg = "CreateTeam (Some ''zed'') None (Some (- 1)) 0 (Returns (Some ''T9'')) Throws"
  let ?frac = "CreateTeam (Some ''zed'') None (Some (1 / 2)) 0 (Returns (Some ''T9'')) Throws"
  let ?join = "JoinTeam (Some ''zed'') (Some ''T1'') (Some ''secret'')"
  have r: "fst (coordinator 5 ?neg empty_store) = Inr (Created ''T9'' ''ERROR_PASS_456'')"
    by (simp add: createTeam_def validateAuth_def runTransaction_def createTeam_tx_def
        current_team_def empty_store_def Let_def generateSecurePassword_def)
  have "\<not> team_ok (snd (coordinator 5 ?neg empty_store)) ''T9''"
    by (simp add: team_ok_def createTeam_def validateAuth_def runTransaction_def createTeam_tx_def
        current_team_def empty_store_def Let_def roster_def capacity_def)
  then have neg: "\<not> capacity_inv (snd (coordinator 5 ?neg empty_store))"
    unfolding capacity_inv_def by blast
  have "\<not> team_ok (snd (coordinator 5 ?frac empty_store)) ''T9''"
    by (simp add: team_ok_def createTeam_def validateAuth_def runTransaction_def createTeam_tx_def
        current_team_def empty_store_def Let_def roster_def capacity_def)
  then have frac: "\<not> capacity_inv (snd (coordinator 5 ?frac empty_store))"
    unfolding capacity_inv_def by blast
  have j: "fst (coordinator 5 ?join half_store) = Inr Joined"
    by (simp add: joinTeam_def validateAuth_def runTransaction_def joinTeam_tx_def
        current_team_def truthy_def doc_throws_def path_segments_def half_store_def
        roster_def capacity_def)
  have "\<not> team_ok (snd (coordinator 5 ?join half_store)) ''T1''"
    by (simp add: team_ok_def joinTeam_def validateAuth_def runTransaction_def joinTeam_tx_def
        current_team_def truthy_def doc_throws_def path_segments_def half_store_def
        roster_def capacity_def team_or_empty_def)
  then have join: "\<not> capacity_inv (snd (coordinator 5 ?join half_store))"
    unfolding capacity_inv_def by blast
  from empty_capacity r neg frac half_capacity j join show ?thesis by blast
qed

subsection \<open>joinTeam: the checks in order\<close>

lemma joinTeam_tx_in_team:
  "current_team (system_coll s uid) \<noteq> None \<Longrightarrow>
   joinTeam_tx uid i p s = Inl (HttpsError FailedPrecondition)"
  by (simp add: joinTeam_tx_def)

lemma joinTeam_tx_missing:
  "current_team (system_coll s uid) = None \<Longrightarrow> \<not> truthy i \<or> \<not> truthy p \<Longrightarrow>
   joinTeam_tx uid i p s = Inl (HttpsError InvalidArgument)"
  by (auto simp: joinTeam_tx_def)

lemma joinTeam_tx_refused:
  "current_team (system_coll s uid) = None \<Longrightarrow> tid \<noteq> [] \<Longrightarrow> truthy p \<Longrightarrow>
   doc_throws tid \<Longrightarrow>
   joinTeam_tx uid (Some tid) p s = Inl OtherError"
  by (simp add: joinTeam_tx_def truthy_def)

lemma joinTeam_tx_not_found:
  "current_team (system_coll s uid) = None \<Longrightarrow> \<not> doc_throws tid \<Longrightarrow> truthy p \<Longrightarrow>
   team_coll s tid = None \<Longrightarrow>
   joinTeam_tx uid (Some tid) p s = Inl (HttpsError NotFound)"
  by (auto simp: joinTeam_tx_def truthy_def doc_throws_def)

lemma joinTeam_tx_wrong_password:
  "current_team (system_coll s uid) = None \<Longrightarrow> \<not> doc_throws tid \<Longrightarrow> truthy p \<Longrightarrow>
   team_coll s tid = Some td \<Longrightarrow> password td \<noteq> p \<Longrightarrow>
   joinTeam_tx uid (Some tid) p s = Inl (HttpsError Unauthenticated)"
  by (auto simp: joinTeam_tx_def truthy_def doc_throws_def)

lemma joinTeam_tx_joined:
  "current_team (system_coll s uid) = None \<Longrightarrow> \<not> doc_throws tid \<Longrightarrow> truthy p \<Longrightarrow>
   team_coll s tid = Some td \<Longrightarrow> password td = p \<Longrightarrow>
   of_nat (length (roster td)) < capacity td \<Longrightarrow>
   joinTeam_tx uid (Some tid) p s =
     Inr ([MergeMembers tid (ArrayUnion uid), MergeSystemTeam uid tid], ())"
  by (auto simp: joinTeam_tx_def truthy_def doc_throws_def)

text \<open>
  C5, amended: \<open>joinTeam\<close> evaluates its preconditions in a fixed order and the first that
  fails decides the error: already in a team (\<open>failed-precondition\<close>), team id or password
  missing (\<open>invalid-argument\<close>), a team id that is not the path of a document, so that
  \<open>doc\<close> throws (\<open>internal\<close>), and, for a team id that is a plain document id, no such team
  (\<open>not-found\<close>), wrong password (\<open>unauthenticated\<close>), roster at capacity
  (\<open>resource-exhausted\<close>); when none fails the caller is added to the roster, the caller's
  membership names the team and the call returns \<open>{joined: true}\<close>.
\<close>

theorem joinTeam_precondition_order:
  "(current_team (system_coll s callerId) \<noteq> None \<longrightarrow>
      joinTeam ts (Some callerId) i p s = (Inl FailedPrecondition, s))
   \<and> (current_team (system_coll s callerId) = None \<and> (\<not> truthy i \<or> \<not> truthy p) \<longrightarrow>
      joinTeam ts (Some callerId) i p s = (Inl InvalidArgument, s))
   \<and> (current_team (system_coll s callerId) = None \<and> badId \<noteq> [] \<and> truthy p
        \<and> doc_throws badId \<longrightarrow>
      joinTeam ts (Some callerId) (Some badId) p s = (Inl Internal, s))
   \<and> (current_team (system_coll s callerId) = None \<and> plain_id tid \<and> truthy p \<longrightarrow>
       (team_coll s tid = None \<longrightarrow>
          joinTeam ts (Some callerId) (Some tid) p s = (Inl NotFound, s))
       \<and> (team_coll s tid = Some td \<and> password td \<noteq> p \<longrightarrow>
          joinTeam ts (Some callerId) (Some tid) p s = (Inl Unauthenticated, s))
       \<and> (team_coll s tid = Some td \<and> password td = p
            \<and> capacity td \<le> of_nat (length (roster td)) \<longrightarrow>
          joinTeam ts (Some callerId) (Some tid) p s = (Inl ResourceExhausted, s))
       \<and> (team_coll s tid = Some td \<and> password td = p
            \<and> of_nat (length (roster td)) < capacity td \<longrightarrow>
          fst (joinTeam ts (Some callerId) (Some tid) p s) = Inr Joined
          \<and> team_coll (snd (joinTeam ts (Some callerId) (Some tid) p s)) =
              (team_coll s)(tid \<mapsto> td\<lparr>members :=
                 Some (if callerId \<in> set (roster td) then roster td else roster td @ [callerId])\<rparr>)
          \<and> system_coll (snd (joinTeam ts (Some callerId) (Some tid) p s)) =
              (system_coll s)(callerId \<mapsto> (system_or_empty s callerId)\<lparr>team := Value tid\<rparr>)))"
proof (intro conjI impI; (elim conjE)?)
  assume "current_team (system_coll s callerId) \<noteq> None"
  then show "joinTeam ts (Some callerId) i p s = (Inl FailedPrecondition, s)"
    by (simp add: joinTeam_tx_in_team joinTeam_Inl handleTeamError_def)
next
  assume "current_team (system_coll s callerId) = None" "\<not> truthy i \<or> \<not> truthy p"
  then show "joinTeam ts (Some callerId) i p s = (Inl InvalidArgument, s)"
    by (simp add: joinTeam_tx_missing joinTeam_Inl handleTeamError_def)
next
  assume "current_team (system_coll s callerId) = None" "badId \<noteq> []" "truthy p"
    "doc_throws badId"
  then show "joinTeam ts (Some callerId) (Some badId) p s = (Inl Internal, s)"
    by (simp add: joinTeam_tx_refused joinTeam_Inl handleTeamError_def)
next
  assume "current_team (system_coll s callerId) = None" "plain_id tid" "truthy p"
    "team_coll s tid = None"
  then show "joinTeam ts (Some callerId) (Some tid) p s = (Inl NotFound, s)"
    by (simp add: joinTeam_tx_not_found joinTeam_Inl handleTeamError_def plain_id_accepted)
next
  assume "current_team (system_coll s callerId) = None" "plain_id tid" "truthy p"
    "team_coll s tid = Some td" "password td \<noteq> p"
  then show "joinTeam ts (Some callerId) (Some tid) p s = (Inl Unauthenticated, s)"
    by (simp add: joinTeam_tx_wrong_password joinTeam_Inl handleTeamError_def plain_id_accepted)
next
  assume "current_team (system_coll s callerId) = None" "plain_id tid" "truthy p"
    "team_coll s tid = Some td" "password td = p" "capacity td \<le> of_nat (length (roster td))"
  then show "joinTeam ts (Some callerId) (Some tid) p s = (Inl ResourceExhausted, s)"
    by (simp add: joinTeam_tx_exhausted joinTeam_Inl handleTeamError_def plain_id_accepted)
next
  assume a: "current_team (system_coll s callerId) = None" "plain_id tid" "truthy p"
    "team_coll s tid = Some td" "password td = p" "of_nat (length (roster td)) < capacity td"
  note eq = joinTeam_Inr[OF joinTeam_tx_joined[OF a(1) plain_id_accepted[OF a(2)] a(3-6)], of ts]
  show "fst (joinTeam ts (Some callerId) (Some tid) p s) = Inr Joined"
    unfolding eq by simp
  show "team_coll (snd (joinTeam ts (Some callerId) (Some tid) p s)) =
              (team_coll s)(tid \<mapsto> td\<lparr>members :=
                 Some (if callerId \<in> set (roster td) then roster td else roster td @ [callerId])\<rparr>)"
    unfolding eq using a(4)
    by (cases "members td") (simp_all add: team_or_empty_def roster_def)
  show "system_coll (snd (joinTeam ts (Some callerId) (Some tid) p s)) =
              (system_coll s)(callerId \<mapsto> (system_or_empty s callerId)\<lparr>team := Value tid\<rparr>)"
    unfolding eq by (simp add: system_or_empty_def)
qed

subsection \<open>Lookups in the example stores\<close>

lemma squad_store_T1: "team_coll squad_store ''T1'' = Some squad_team"
  by (simp add: squad_store_def squad_team_def)

lemma squad_store_T7: "team_coll squad_store ''T7'' = None"
  by (simp add: squad_store_def)

lemma open_store_T1: "team_coll open_store ''T1'' = Some open_team"
  by (simp add: open_store_def open_team_def)

lemma squad_store_current:
  "current_team (system_coll squad_store ''olga'') = Some ''T1''"
  "current_team (system_coll squad_store ''max'') = Some ''T1''"
  "current_team (system_coll squad_store ''zed'') = None"
  by (simp_all add: squad_store_def current_team_def)

lemma open_store_current:
  "current_team (system_coll open_store ''olga'') = Some ''T1''"
  "current_team (system_coll open_store ''zed'') = None"
  by (simp_all add: open_store_def current_team_def)

lemma plain_T1_T7: "plain_id ''T1''" "plain_id ''T7''"
  by (simp_all add: plain_id_def reserved_id_def)

lemma doc_throws_T1_x: "doc_throws ''T1/x''"
  by (simp add: doc_throws_def path_segments_def)

theorem joinTeam_precondition_order_witness:
  "joinTeam 5 (Some ''olga'') None None squad_store = (Inl FailedPrecondition, squad_store)
   \<and> joinTeam 5 (Some ''zed'') (Some ''T1'') None squad_store = (Inl InvalidArgument, squad_store)
   \<and> joinTeam 5 (Some ''zed'') (Some ''T1/x'') (Some ''secret'') squad_store
       = (Inl Internal, squad_store)
   \<and> joinTeam 5 (Some ''zed'') (Some ''T7'') (Some ''secret'') squad_store
       = (Inl NotFound, squad_store)
   \<and> joinTeam 5 (Some ''zed'') (Some ''T1'') (Some ''guess'') squad_store
       = (Inl Unauthenticated, squad_store)
   \<and> joinTeam 5 (Some ''zed'') (Some ''T1'') (Some ''secret'') squad_store
       = (Inl ResourceExhausted, squad_store)
   \<and> fst (joinTeam 5 (Some ''zed'') (Some ''T1'') (Some ''secret'') open_store) = Inr Joined
   \<and> team_coll (snd (joinTeam 5 (Some ''zed'') (Some ''T1'') (Some ''secret'') open_store)) ''T1''
       = Some (open_team\<lparr>members := Some [''olga'', ''zed'']\<rparr>)
   \<and> system_coll (snd (joinTeam 5 (Some ''zed'') (Some ''T1'') (Some ''secret'') open_store)) ''zed''
       = Some \<lparr>team = Value ''T1'', teamMax = None, lastLeftTeam = Some 1000\<rparr>"
proof -
  have 1: "joinTeam 5 (Some ''olga'') None None squad_store = (Inl FailedPrecondition, squad_store)"
    using joinTeam_precondition_order[where s = squad_store and callerId = "''olga''"
        and i = None and p = None and ts = 5 and tid = "''T1''" and td = squad_team
        and badId = "''T1/x''"]
    by (simp add: squad_store_current)
  have 2: "joinTeam 5 (Some ''zed'') (Some ''T1'') None squad_store
      = (Inl InvalidArgument, squad_store)"
    using joinTeam_precondition_order[where s = squad_store and callerId = "''zed''"
        and i = "Some ''T1''" and p = None and ts = 5 and tid = "''T1''" and td = squad_team
        and badId = "''T1/x''"]
    by (simp add: squad_store_current truthy_def)
  have 3: "joinTeam 5 (Some ''zed'') (Some ''T1/x'') (Some ''secret'') squad_store
       = (Inl Internal, squad_store)"
    using joinTeam_precondition_order[where s = squad_store and callerId = "''zed''"
        and i = None and tid = "''T7''" and p = "Some ''secret''" and ts = 5 and td = squad_team
        and badId = "''T1/x''"]
    by (simp add: squad_store_current truthy_def doc_throws_T1_x)
  have 4: "joinTeam 5 (Some ''zed'') (Some ''T7'') (Some ''secret'') squad_store
       = (Inl NotFound, squad_store)"
    using joinTeam_precondition_order[where s = squad_store and callerId = "''zed''"
        and i = None and tid = "''T7''" and p = "Some ''secret''" and ts = 5 and td = squad_team
        and badId = "''T1/x''"]
    by (simp add: squad_store_current truthy_def squad_store_T7 plain_T1_T7)
  have 5: "joinTeam 5 (Some ''zed'') (Some ''T1'') (Some ''guess'') squad_store
       = (Inl Unauthenticated, squad_store)"
    using joinTeam_precondition_order[where s = squad_store and callerId = "''zed''"
        and i = None and tid = "''T1''" and p = "Some ''guess''" and ts = 5 and td = squad_team
        and badId = "''T1/x''"]
    by (simp add: squad_store_current truthy_def squad_store_T1 plain_T1_T7)
       (simp add: squad_team_def)
  have 6: "joinTeam 5 (Some ''zed'') (Some ''T1'') (Some ''secret'') squad_store
       = (Inl ResourceExhausted, squad_store)"
    using joinTeam_precondition_order[where s = squad_store and callerId = "''zed''"
        and i = None and tid = "''T1''" and p = "Some ''secret''" and ts = 5 and td = squad_team
        and badId = "''T1/x''"]
    by (simp add: squad_store_current truthy_def squad_store_T1 plain_T1_T7)
       (simp add: squad_team_def capacity_def roster_def)
  have 7: "fst (joinTeam 5 (Some ''zed'') (Some ''T1'') (Some ''secret'') open_store) = Inr Joined
   \<and> team_coll (snd (joinTeam 5 (Some ''zed'') (Some ''T1'') (Some ''secret'') open_store)) ''T1''
       = Some (open_team\<lparr>members := Some [''olga'', ''zed'']\<rparr>)
   \<and> system_coll (snd (joinTeam 5 (Some ''zed'') (Some ''T1'') (Some ''secret'') open_store)) ''zed''
       = Some \<lparr>team = Value ''T1'', teamMax = None, lastLeftTeam = Some 1000\<rparr>"
  proof -
    have pre: "password open_team = Some ''secret''" "capacity open_team = 10"
      "roster open_team = [''olga'']"
      by (simp_all add: open_team_def capacity_def roster_def)
    have z: "system_or_empty open_store ''zed'' = \<lparr>team = Null, teamMax = None, lastLeftTeam = Some 1000\<rparr>"
      by (simp add: system_or_empty_def open_store_def)
    from joinTeam_precondition_order[where s = open_store and callerId = "''zed''"
        and i = None and tid = "''T1''" and p = "Some ''secret''" and ts = 5 and td = open_team
        and badId = "''T1/x''"]
    show ?thesis
      by (simp add: open_store_current truthy_def open_store_T1 pre z plain_T1_T7)
  qed
  from 1 2 3 4 5 6 7 show ?thesis by blast
qed

text \<open>
  As stated, C5 fails: no team has the id \<open>T1/x\<close>, and \<open>joinTeam\<close> with that id does not
  answer \<open>not-found\<close>: \<open>doc\<close> throws and the error is \<open>internal\<close>.
\<close>

theorem joinTeam_precondition_order_counterexample:
  "current_team (system_coll squad_store ''zed'') = None
   \<and> team_coll squad_store ''T1/x'' = None
   \<and> joinTeam 5 (Some ''zed'') (Some ''T1/x'') (Some ''secret'') squad_store
       = (Inl Internal, squad_store)"
  by (simp add: joinTeam_def validateAuth_def runTransaction_def joinTeam_tx_def
      current_team_def truthy_def doc_throws_def path_segments_def handleTeamError_def
      squad_store_def)






text \<open>
  C6, amended: a successful \<open>createTeam\<close> writes the team document
  \<open>{owner: callerId, password, maximumMembers, members: [callerId], createdAt}\<close> at the
  generated id, merges \<open>{team: newId}\<close> into the caller's membership and returns
  \<open>{team: newId, password}\<close>; \<open>maximumMembers\<close> is the argument when it is supplied and not
  0, and 10 when it is absent or 0; the password is the argument when it is supplied and
  not empty, and the result of \<open>generateSecurePassword\<close> otherwise.
\<close>

theorem createTeam_writes:
  assumes "fst (createTeam ts (Some callerId) pw mx now idGen passGen s) = Inr r"
  shows "\<exists>newId. idGen = Returns (Some newId)
     \<and> r = Created newId (final_password pw passGen)
     \<and> team_coll (snd (createTeam ts (Some callerId) pw mx now idGen passGen s)) =
         (team_coll s)(newId \<mapsto>
            \<lparr>owner = Some callerId, password = Some (final_password pw passGen),
             maximumMembers = Some (case mx of None \<Rightarrow> 10 | Some m \<Rightarrow> if m = 0 then 10 else m),
             members = Some [callerId], createdAt = Some ts\<rparr>)
     \<and> system_coll (snd (createTeam ts (Some callerId) pw mx now idGen passGen s)) =
         (system_coll s)(callerId \<mapsto> (system_or_empty s callerId)\<lparr>team := Value newId\<rparr>)"
proof -
  from createTeam_success[OF assms] obtain tid where
    pre: "current_team (system_coll s callerId) = None" "\<not> cooldown_active s callerId now"
    and tid: "idGen = Returns (Some tid)" "tid \<noteq> []" by blast
  have mx: "(case mx of None \<Rightarrow> 10 | Some m \<Rightarrow> if m \<noteq> 0 then m else 10) =
            (case mx of None \<Rightarrow> (10::number) | Some m \<Rightarrow> if m = 0 then 10 else m)"
    by (simp split: option.splits)
  note eq = createTeam_created[OF pre tid(2), of ts pw mx passGen]
  from assms have "r = Created tid (final_password pw passGen)"
    unfolding tid(1) eq by simp
  then show ?thesis
    unfolding tid(1) eq by (simp add: system_or_empty_def mx)
qed

theorem createTeam_writes_witness:
  "fst (createTeam 7 (Some ''zed'') (Some ''pw'') (Some 2) 7 (Returns (Some ''T5'')) Throws
          empty_store) = Inr (Created ''T5'' ''pw'')
   \<and> team_coll (snd (createTeam 7 (Some ''zed'') (Some ''pw'') (Some 2) 7 (Returns (Some ''T5''))
          Throws empty_store)) ''T5'' =
       Some \<lparr>owner = Some ''zed'', password = Some ''pw'', maximumMembers = Some 2,
             members = Some [''zed''], createdAt = Some 7\<rparr>
   \<and> system_coll (snd (createTeam 7 (Some ''zed'') (Some ''pw'') (Some 2) 7 (Returns (Some ''T5''))
          Throws empty_store)) ''zed'' =
       Some \<lparr>team = Value ''T5'', teamMax = None, lastLeftTeam = None\<rparr>"
proof -
  have h: "fst (createTeam 7 (Some ''zed'') (Some ''pw'') (Some 2) 7 (Returns (Some ''T5'')) Throws
          empty_store) = Inr (Created ''T5'' ''pw'')"
    by (simp add: createTeam_def validateAuth_def runTransaction_def createTeam_tx_def
        current_team_def empty_store_def Let_def)
  have e: "system_or_empty empty_store ''zed'' = empty_system_doc"
    by (simp add: system_or_empty_def empty_store_def)
  from createTeam_writes[OF h] h show ?thesis
    by (auto simp: final_password_def truthy_def e empty_system_doc_def)
qed

text \<open>
  As stated, C6 fails: a supplied \<open>maximumMembers\<close> of 0 is not stored as given, the team
  document gets 10.
\<close>

theorem createTeam_writes_counterexample:
  "fst (createTeam 7 (Some ''zed'') (Some ''pw'') (Some 0) 7 (Returns (Some ''T5'')) Throws
          empty_store) = Inr (Created ''T5'' ''pw'')
   \<and> map_option maximumMembers
       (team_coll (snd (createTeam 7 (Some ''zed'') (Some ''pw'') (Some 0) 7
          (Returns (Some ''T5'')) Throws empty_store)) ''T5'') = Some (Some 10)"
  by (simp add: createTeam_def validateAuth_def runTransaction_def createTeam_tx_def
      current_team_def empty_store_def Let_def)

text \<open>
  C7: for a caller whose membership names no team and has \<open>lastLeftTeam\<close> set, \<open>createTeam\<close>
  fails with \<open>failed-precondition\<close> and leaves the store as it was while less than five
  minutes have passed since \<open>lastLeftTeam\<close>; once more than five minutes have passed, the
  same call, with a team id generated, succeeds.
\<close>

theorem createTeam_cooldown:
  assumes "system_coll s callerId = Some d" and "current_team (Some d) = None"
    and "lastLeftTeam d = Some left"
  shows "(0 \<le> now - left \<and> now - left < 5 * 60 * 1000 \<longrightarrow>
            createTeam ts (Some callerId) pw mx now idGen passGen s = (Inl FailedPrecondition, s))
     \<and> (5 * 60 * 1000 < now - left \<and> newId \<noteq> [] \<longrightarrow>
            fst (createTeam ts (Some callerId) pw mx now (Returns (Some newId)) passGen s) =
              Inr (Created newId (final_password pw passGen)))"
proof (intro conjI impI)
  assume "0 \<le> now - left \<and> now - left < 5 * 60 * 1000"
  then have "cooldown_active s callerId now"
    using assms by (simp add: cooldown_active_def)
  then show "createTeam ts (Some callerId) pw mx now idGen passGen s = (Inl FailedPrecondition, s)"
    by (simp add: createTeam_blocked)
next
  assume a: "5 * 60 * 1000 < now - left \<and> newId \<noteq> []"
  then have c: "\<not> cooldown_active s callerId now"
    using assms by (simp add: cooldown_active_def)
  have t: "current_team (system_coll s callerId) = None"
    using assms by simp
  from a have n: "newId \<noteq> []" by simp
  show "fst (createTeam ts (Some callerId) pw mx now (Returns (Some newId)) passGen s) =
              Inr (Created newId (final_password pw passGen))"
    unfolding createTeam_created[OF t c n] by simp
qed

theorem createTeam_cooldown_witness:
  "createTeam 5 (Some ''zed'') None None 2000 (Returns (Some ''T5'')) Throws squad_store
     = (Inl FailedPrecondition, squad_store)
   \<and> fst (createTeam 5 (Some ''zed'') None None 400000 (Returns (Some ''T5'')) Throws squad_store)
     = Inr (Created ''T5'' ''ERROR_PASS_456'')"
proof -
  have d: "system_coll squad_store ''zed'' = Some \<lparr>team = Null, teamMax = None, lastLeftTeam = Some 1000\<rparr>"
    by (simp add: squad_store_def)
  have c: "current_team (Some \<lparr>team = Null, teamMax = None, lastLeftTeam = Some 1000\<rparr>) = None"
    by (simp add: current_team_def)
  have l: "lastLeftTeam \<lparr>team = Null, teamMax = None, lastLeftTeam = Some 1000\<rparr> = Some 1000"
    by simp
  from createTeam_cooldown[OF d c l, where now = 2000 and ts = 5 and pw = None and mx = None
      and idGen = "Returns (Some ''T5'')" and passGen = Throws and newId = "''T5''"]
    createTeam_cooldown[OF d c l, where now = 400000 and ts = 5 and pw = None and mx = None
      and idGen = "Returns (Some ''T5'')" and passGen = Throws and newId = "''T5''"]
  show ?thesis
    by (simp add: final_password_def truthy_def generateSecurePassword_def)
qed

subsection \<open>createTeam and the password generator\<close>

lemma createTeam_tx_Inl_passGen:
  "createTeam_tx uid pw mx now idGen passGen s = Inl e \<Longrightarrow>
   createTeam_tx uid pw mx now idGen passGen' s = Inl e"
  unfolding createTeam_tx_def Let_def
  by (auto split: if_splits option.splits gen_outcome.splits)

lemma createTeam_Inl_passGen:
  assumes "fst (createTeam ts auth pw mx now idGen passGen s) = Inl e"
  shows "fst (createTeam ts auth pw mx now idGen passGen' s) = Inl e"
proof (cases auth)
  case None
  with assms show ?thesis by (simp add: createTeam_unauth)
next
  case (Some uid)
  show ?thesis
  proof (cases "createTeam_tx uid pw mx now idGen passGen s")
    case (Inl x)
    from createTeam_tx_Inl_passGen[OF Inl] have "createTeam_tx uid pw mx now idGen passGen' s = Inl x" .
    with assms Inl Some show ?thesis by (simp add: createTeam_Inl)
  next
    case (Inr y)
    obtain ws tid p where "y = (ws, (tid, p))" by (cases y) auto
    with assms Inr Some show ?thesis by (simp add: createTeam_Inr)
  qed
qed

lemma createTeam_not_internal:
  assumes "tid \<noteq> []"
  shows "fst (createTeam ts auth pw mx now (Returns (Some tid)) passGen s) \<noteq> Inl Internal"
proof (cases auth)
  case None
  then show ?thesis by (simp add: createTeam_unauth)
next
  case (Some uid)
  show ?thesis
  proof (cases "current_team (system_coll s uid) \<noteq> None \<or> cooldown_active s uid now")
    case True
    then show ?thesis unfolding Some by (simp add: createTeam_blocked)
  next
    case False
    then show ?thesis unfolding Some using assms by (simp add: createTeam_created)
  qed
qed

text \<open>
  C10: \<open>generateSecurePassword\<close> returns a string for every outcome of the generator: the
  generated string when it is non-empty and at least 4 characters long, \<open>DEBUG_PASS_123\<close>
  when the result is missing or shorter, \<open>ERROR_PASS_456\<close> when generation throws. Whether
  \<open>createTeam\<close> fails, and with which error, does not depend on the outcome of password
  generation, and with a team id generated it never fails with \<open>internal\<close>.
\<close>

theorem generateSecurePassword_total:
  "generateSecurePassword Throws = ''ERROR_PASS_456''
   \<and> generateSecurePassword (Returns None) = ''DEBUG_PASS_123''
   \<and> generateSecurePassword (Returns (Some g)) =
       (if g \<noteq> [] \<and> 4 \<le> length g then g else ''DEBUG_PASS_123'')
   \<and> (fst (createTeam ts auth pw mx now idGen passGen s) = Inl e
        \<longleftrightarrow> fst (createTeam ts auth pw mx now idGen passGen' s) = Inl e)
   \<and> (tid \<noteq> [] \<longrightarrow>
        fst (createTeam ts auth pw mx now (Returns (Some tid)) passGen s) \<noteq> Inl Internal)"
proof -
  have gen: "generateSecurePassword Throws = ''ERROR_PASS_456''
   \<and> generateSecurePassword (Returns None) = ''DEBUG_PASS_123''
   \<and> generateSecurePassword (Returns (Some g)) =
       (if g \<noteq> [] \<and> 4 \<le> length g then g else ''DEBUG_PASS_123'')"
    by (simp add: generateSecurePassword_def)
  have indep: "fst (createTeam ts auth pw mx now idGen passGen s) = Inl e
        \<longleftrightarrow> fst (createTeam ts auth pw mx now idGen passGen' s) = Inl e"
    using createTeam_Inl_passGen[of ts auth pw mx now idGen passGen s e passGen']
      createTeam_Inl_passGen[of ts auth pw mx now idGen passGen' s e passGen]
    by blast
  from gen indep createTeam_not_internal[of tid ts auth pw mx now passGen s]
  show ?thesis by blast
qed

theorem generateSecurePassword_total_witness:
  "generateSecurePassword (Returns (Some ''Ab3dEf9h'')) = ''Ab3dEf9h''
   \<and> generateSecurePassword (Returns (Some ''abc'')) = ''DEBUG_PASS_123''
   \<and> ''T5'' \<noteq> []
   \<and> fst (createTeam 5 (Some ''zed'') None None 400000 (Returns (Some ''T5'')) Throws squad_store)
        \<noteq> Inl Internal"
  using generateSecurePassword_total[where g = "''Ab3dEf9h''" and tid = "''T5''" and ts = 5
      and auth = "Some ''zed''" and pw = None and mx = None and now = 400000 and passGen = Throws
      and s = squad_store and idGen = Throws and passGen' = Throws and e = Internal]
    generateSecurePassword_total[where g = "''abc''" and tid = "''T5''" and ts = 5
      and auth = "Some ''zed''" and pw = None and mx = None and now = 400000 and passGen = Throws
      and s = squad_store and idGen = Throws and passGen' = Throws and e = Internal]
  by simp

text \<open>
  C9, amended: when the caller supplies no password, the password \<open>createTeam\<close> stores and
  returns is the generated value whenever the generator returns a string of at least 4
  characters; it is the sentinel \<open>DEBUG_PASS_123\<close> when the generator returns nothing or a
  shorter string, without throwing, and the sentinel \<open>ERROR_PASS_456\<close> when it throws.
\<close>

theorem createTeam_generated_password:
  assumes "\<not> truthy pw"
    and "fst (createTeam ts (Some callerId) pw mx now idGen passGen s) = Inr r"
  shows "\<exists>newId td.
       r = Created newId
             (case passGen of
                Throws \<Rightarrow> ''ERROR_PASS_456''
              | Returns None \<Rightarrow> ''DEBUG_PASS_123''
              | Returns (Some g) \<Rightarrow> if 4 \<le> length g then g else ''DEBUG_PASS_123'')
     \<and> team_coll (snd (createTeam ts (Some callerId) pw mx now idGen passGen s)) newId = Some td
     \<and> password td =
         Some (case passGen of
                 Throws \<Rightarrow> ''ERROR_PASS_456''
               | Returns None \<Rightarrow> ''DEBUG_PASS_123''
               | Returns (Some g) \<Rightarrow> if 4 \<le> length g then g else ''DEBUG_PASS_123'')"
proof -
  from createTeam_success[OF assms(2)] obtain tid where
    pre: "current_team (system_coll s callerId) = None" "\<not> cooldown_active s callerId now"
    and tid: "idGen = Returns (Some tid)" "tid \<noteq> []" by blast
  have p: "final_password pw passGen =
      (case passGen of
         Throws \<Rightarrow> ''ERROR_PASS_456''
       | Returns None \<Rightarrow> ''DEBUG_PASS_123''
       | Returns (Some g) \<Rightarrow> if 4 \<le> length g then g else ''DEBUG_PASS_123'')"
    using assms(1)
    by (auto simp: final_password_def generateSecurePassword_def
        split: gen_outcome.splits option.splits)
  note eq = createTeam_created[OF pre tid(2), of ts pw mx passGen]
  from assms(2) have "r = Created tid (final_password pw passGen)"
    unfolding tid(1) eq by simp
  then show ?thesis
    unfolding tid(1) eq p by simp
qed

theorem createTeam_generated_password_witness:
  "\<not> truthy None
   \<and> fst (createTeam 5 (Some ''zed'') None None 0 (Returns (Some ''T5''))
        (Returns (Some ''Ab3dEf9h'')) empty_store) = Inr (Created ''T5'' ''Ab3dEf9h'')
   \<and> map_option password (team_coll (snd (createTeam 5 (Some ''zed'') None None 0
        (Returns (Some ''T5'')) (Returns (Some ''Ab3dEf9h'')) empty_store)) ''T5'')
       = Some (Some ''Ab3dEf9h'')"
proof -
  have t: "\<not> truthy None" by (simp add: truthy_def)
  have h: "fst (createTeam 5 (Some ''zed'') None None 0 (Returns (Some ''T5''))
        (Returns (Some ''Ab3dEf9h'')) empty_store) = Inr (Created ''T5'' ''Ab3dEf9h'')"
    by (simp add: createTeam_def validateAuth_def runTransaction_def createTeam_tx_def
        current_team_def empty_store_def Let_def generateSecurePassword_def)
  from createTeam_generated_password[OF t h] t h show ?thesis by auto
qed

text \<open>
  As stated, C9 fails: the generator returns \<open>abc\<close> without throwing, and the password
  stored and returned is the sentinel \<open>DEBUG_PASS_123\<close>.
\<close>

theorem createTeam_generated_password_counterexample:
  "fst (createTeam 5 (Some ''zed'') None None 0 (Returns (Some ''T5'')) (Returns (Some ''abc''))
        empty_store) = Inr (Created ''T5'' ''DEBUG_PASS_123'')
   \<and> map_option password (team_coll (snd (createTeam 5 (Some ''zed'') None None 0
        (Returns (Some ''T5'')) (Returns (Some ''abc'')) empty_store)) ''T5'')
       = Some (Some ''DEBUG_PASS_123'')"
  by (simp add: createTeam_def validateAuth_def runTransaction_def createTeam_tx_def
      current_team_def empty_store_def Let_def generateSecurePassword_def)

end
